theory Spec2Isabelle
  imports Main "HOL-Library.Word"
begin

text \<open>
  A shallow embedding of the message executor of the OVM fork of ethereumjs-vm: the
  executor \<open>EVM\<close> (evm.ts) with its checkpoint discipline, gas accounting and OVM exit
  reconciliation, the interpreter's jump-destination pre-scan, and the state bridge that
  serves calls to the StateManager pseudo-contract. Definitions come first, in the order
  of their dependencies; the properties proved of them follow.
\<close>

section \<open>Bytes and big integers\<close>

text \<open>
  A Node \<open>Buffer\<close> is a list of bytes. A \<open>BN\<close> (bn.js) is an unbounded integer; its
  \<open>add\<close>, \<open>sub\<close>, \<open>gt\<close>, \<open>lte\<close> do not wrap.
\<close>

type_synonym byte = "8 word"
type_synonym bytes = "byte list"

section \<open>Interpreter pre-scan (source part 000, class \<open>Interpreter\<close>, \<open>_getValidJumpDests\<close>)\<close>

datatype opname = PUSH | JUMPDEST | OTHER

text \<open>
  Modelled from the spec: the opcode table \<open>this._vm._opcodes\<close> (opcodes.ts) is not among
  the sources. \<open>lookupOpInfo(b).name\<close> is \<open>'PUSH'\<close> for the PUSH-N bytes \<open>0x60..0x7f\<close>
  (N = b - 0x5f), \<open>'JUMPDEST'\<close> for \<open>0x5b\<close>; every other name is irrelevant to the scan.
\<close>

definition lookupOpInfo_name :: "byte \<Rightarrow> opname" where
  "lookupOpInfo_name b =
     (if 0x60 \<le> b \<and> b \<le> 0x7f then PUSH else if b = 0x5b then JUMPDEST else OTHER)"

text \<open>
  The \<open>for (let i = 0; i < code.length; i++)\<close> loop with its cursor \<open>i\<close> and the array
  \<open>jumps\<close>: a PUSH adds \<open>code[i] - 0x5f\<close> to the cursor, a JUMPDEST pushes the cursor,
  then \<open>i++\<close>.
\<close>

function getValidJumpDests_loop :: "bytes \<Rightarrow> nat \<Rightarrow> nat list \<Rightarrow> nat list" where
  "getValidJumpDests_loop bc i jumps =
     (if i < length bc then
        (let curOpCode = lookupOpInfo_name (bc ! i);
             i1 = (if curOpCode = PUSH then i + (unat (bc ! i) - 0x5f) else i);
             jumps1 = (if curOpCode = JUMPDEST then jumps @ [i1] else jumps)
         in getValidJumpDests_loop bc (i1 + 1) jumps1)
      else jumps)"
  by pat_completeness auto
termination
  by (relation "measure (\<lambda>(bc, i, jumps). length bc - i)") auto

definition getValidJumpDests :: "bytes \<Rightarrow> nat list" where
  "getValidJumpDests bc = getValidJumpDests_loop bc 0 []"

subsection \<open>Instruction boundaries, stated independently of the scan\<close>

text \<open>
  The number of immediate bytes that follow an opcode byte: N for PUSH-N, none otherwise.
\<close>

definition immediateLen :: "byte \<Rightarrow> nat" where
  "immediateLen b = (if 0x60 \<le> b \<and> b \<le> 0x7f then unat b - 0x5f else 0)"

text \<open>
  The offsets at which an instruction starts when the code is decoded linearly from
  offset \<open>p\<close>: each instruction occupies its opcode byte and its immediate bytes.
\<close>

function instrOffsets :: "bytes \<Rightarrow> nat \<Rightarrow> nat list" where
  "instrOffsets bc p =
     (if p < length bc then p # instrOffsets bc (p + 1 + immediateLen (bc ! p)) else [])"
  by pat_completeness auto
termination
  by (relation "measure (\<lambda>(bc, p). length bc - p)") auto

text \<open>Offset \<open>j\<close> is one of the immediate bytes of a PUSH-N instruction of the code.\<close>

definition insidePushImmediate :: "bytes \<Rightarrow> nat \<Rightarrow> bool" where
  "insidePushImmediate bc j =
     (\<exists>p \<in> set (instrOffsets bc 0).
        lookupOpInfo_name (bc ! p) = PUSH \<and> p < j \<and> j \<le> p + immediateLen (bc ! p))"

section \<open>Errors (exceptions.ts)\<close>

text \<open>
  Modelled from the spec: exceptions.ts is not among the sources; the \<open>ERROR\<close> kinds are
  those the spec lists (section 7) and evm.ts names.
\<close>

datatype ERROR =
    OUT_OF_GAS | STACK_UNDERFLOW | STACK_OVERFLOW | INVALID_JUMP | INVALID_OPCODE
  | REVERT | STATIC_STATE_CHANGE | INTERNAL_ERROR | CREATE_COLLISION | STOP
  | VALUE_OVERFLOW | BLS_12_381_INVALID_INPUT_LENGTH | BLS_12_381_POINT_NOT_ON_CURVE
  | OVM_ERROR

text \<open>
  A thrown or recorded JavaScript value: a \<open>VmError\<close> carrying its \<open>error\<close> kind, or any
  other \<open>Error\<close> (no \<open>error\<close> field). A function that can throw returns
  \<open>exception + 'a\<close>, with \<open>Inl\<close> for the throw.
\<close>

datatype exception = VmError ERROR | JsError string

fun error_of :: "exception \<Rightarrow> ERROR option" where
  "error_of (VmError k) = Some k"
| "error_of (JsError s) = None"

section \<open>Data model\<close>

text \<open>
  Modelled from the spec: ovm/utils/buffer-utils and ovm/utils/constants are not among the
  sources. The spec speaks of byte sequences only (a 32-byte value, 32 zero bytes), so a hex
  string (\<open>'0x..'\<close>) is represented by the byte sequence it denotes: \<open>fromHexString\<close> and
  \<open>toHexString\<close> are the identity on that representation, and \<open>NULL_BYTES32\<close> is 32 zero
  bytes.
\<close>

type_synonym hexstring = bytes

definition fromHexString :: "hexstring \<Rightarrow> bytes" where
  "fromHexString s = s"

definition toHexString :: "bytes \<Rightarrow> hexstring" where
  "toHexString b = b"

definition NULL_BYTES32 :: hexstring where
  "NULL_BYTES32 = replicate 32 0"

text \<open>\<open>MAX_INTEGER\<close> and \<open>KECCAK256_NULL\<close> of ethereumjs-util.\<close>

definition MAX_INTEGER :: int where
  "MAX_INTEGER = 2 ^ 256 - 1"

definition KECCAK256_NULL :: bytes where
  "KECCAK256_NULL =
     [0xc5, 0xd2, 0x46, 0x01, 0x86, 0xf7, 0x23, 0x3c, 0x92, 0x7e, 0x7d, 0xb2, 0xdc, 0xc7, 0x03, 0xc0,
      0xe5, 0x00, 0xb6, 0x53, 0xca, 0x82, 0x27, 0x3b, 0x7b, 0xfa, 0xd8, 0x04, 0x5d, 0x85, 0xa4, 0x70]"

text \<open>
  Modelled from the spec: \<open>Account\<close> belongs to a package that is not among the sources;
  its fields are those of section 3. The Buffers \<open>nonce\<close> and \<open>balance\<close> are represented by
  the numbers \<open>new BN(..)\<close> reads from them; a Buffer reads as a number that is not
  negative, and every balance the executor stores is one (\<open>toBuffer_BN\<close> below).
\<close>

record account =
  nonce :: nat
  balance :: int
  stateRoot :: bytes
  codeHash :: bytes

text \<open>A log entry \<open>[address, topics, data]\<close>; \<open>log[0]\<close> is its address.\<close>

type_synonym log = "bytes \<times> bytes list \<times> bytes"

text \<open>
  \<open>ExecResult\<close> and \<open>EVMResult\<close> (evm.ts lines 26--74). An optional field is an
  \<open>option\<close>. The field \<open>runState\<close>, a copy of the interpreter's run state that the
  executor never reads, is left out. \<open>EVMResult.gasUsed\<close> is \<open>res_gasUsed\<close>.
\<close>

record ExecResult =
  exceptionError :: "exception option"
  gas :: "int option"
  gasUsed :: int
  returnValue :: bytes
  logs :: "log list option"
  selfdestruct :: "(string \<times> bytes) list option"
  gasRefund :: "int option"

record EVMResult =
  res_gasUsed :: int
  createdAddress :: "bytes option"
  execResult :: ExecResult

text \<open>\<open>message.code\<close> is a Buffer of bytecode or a precompile function of (data, gasLimit).\<close>

datatype msgcode = Bytecode bytes | Precompile "bytes \<Rightarrow> int \<Rightarrow> ExecResult"

text \<open>
  Modelled from the spec: message.ts is not among the sources; the fields of \<open>Message\<close> are
  those of section 3, with \<open>isCompiled\<close>, which evm.ts sets. \<open>value\<close> is \<open>msg_value\<close>,
  \<open>selfdestruct\<close> is \<open>msg_selfdestruct\<close>.
\<close>

record message =
  caller :: bytes
  to :: "bytes option"
  msg_value :: int
  data :: bytes
  code :: "msgcode option"
  gasLimit :: int
  depth :: nat
  isStatic :: bool
  delegatecall :: bool
  salt :: "bytes option"
  codeAddress :: bytes
  originalTargetAddress :: "bytes option"
  isCompiled :: bool
  msg_selfdestruct :: "(string \<times> bytes) list option"

text \<open>\<open>message.code.length === 0\<close>: a Buffer's byte count; a function's \<open>length\<close> is its
  number of parameters, one for a precompile.\<close>

fun code_length :: "msgcode \<Rightarrow> nat" where
  "code_length (Bytecode b) = length b"
| "code_length (Precompile f) = 1"

section \<open>State view\<close>

text \<open>
  Modelled from the spec: the StateManager (state/index) is not among the sources. Per
  section 6 it holds accounts, contract code and storage slots (a missing slot reads as 32
  zero bytes) and a stack of checkpoints; per section 8, \<open>checkpoint; revert\<close> restores
  the state and \<open>checkpoint; commit\<close> keeps it. \<open>commit\<close> and \<open>revert\<close> with no open
  checkpoint, which the executor never issues, leave the state as it is.
\<close>

record world =
  accounts :: "bytes \<Rightarrow> account"
  contractCode :: "bytes \<Rightarrow> bytes"
  contractStorage :: "bytes \<Rightarrow> bytes \<Rightarrow> bytes option"

record stateview =
  current :: world
  checkpoints :: "world list"

text \<open>Modelled from the spec: the operations of the state view (section 6).\<close>

definition getAccount :: "stateview \<Rightarrow> bytes \<Rightarrow> account" where
  "getAccount st a = accounts (current st) a"

definition putAccount :: "stateview \<Rightarrow> bytes \<Rightarrow> account \<Rightarrow> stateview" where
  "putAccount st a acc = st\<lparr>current := (current st)\<lparr>accounts := (accounts (current st))(a := acc)\<rparr>\<rparr>"

definition getContractCode :: "stateview \<Rightarrow> bytes \<Rightarrow> bytes" where
  "getContractCode st a = contractCode (current st) a"

definition putContractCode :: "stateview \<Rightarrow> bytes \<Rightarrow> bytes \<Rightarrow> stateview" where
  "putContractCode st a c =
     st\<lparr>current := (current st)\<lparr>contractCode := (contractCode (current st))(a := c)\<rparr>\<rparr>"

definition getContractStorage :: "stateview \<Rightarrow> bytes \<Rightarrow> bytes \<Rightarrow> bytes" where
  "getContractStorage st a k =
     (case contractStorage (current st) a k of None \<Rightarrow> replicate 32 0 | Some v \<Rightarrow> v)"

definition putContractStorage :: "stateview \<Rightarrow> bytes \<Rightarrow> bytes \<Rightarrow> bytes \<Rightarrow> stateview" where
  "putContractStorage st a k v =
     st\<lparr>current := (current st)\<lparr>contractStorage :=
        (contractStorage (current st))(a := (contractStorage (current st) a)(k := Some v))\<rparr>\<rparr>"

definition clearContractStorage :: "stateview \<Rightarrow> bytes \<Rightarrow> stateview" where
  "clearContractStorage st a =
     st\<lparr>current := (current st)\<lparr>contractStorage :=
        (contractStorage (current st))(a := (\<lambda>k. None))\<rparr>\<rparr>"

definition checkpoint :: "stateview \<Rightarrow> stateview" where
  "checkpoint st = st\<lparr>checkpoints := current st # checkpoints st\<rparr>"

definition commit :: "stateview \<Rightarrow> stateview" where
  "commit st = st\<lparr>checkpoints := tl (checkpoints st)\<rparr>"

definition revert :: "stateview \<Rightarrow> stateview" where
  "revert st =
     (case checkpoints st of [] \<Rightarrow> st | w # ws \<Rightarrow> \<lparr>current = w, checkpoints = ws\<rparr>)"

section \<open>Host capabilities (\<open>_vm: any\<close>)\<close>

text \<open>The entry of the contract registry that evm.ts reads: its \<open>name\<close>.\<close>

record contract =
  name :: string

text \<open>
  The decoded call to the StateManager interface: the function \<open>fragment.name\<close> with its
  \<open>functionArgs\<close>, for the nine functions with a handler (source part 004, lines 29--39).
\<close>

datatype sm_call =
    AssociateCodeContract hexstring hexstring
  | SetStorage hexstring hexstring hexstring
  | GetStorage hexstring hexstring
  | GetStorageView hexstring hexstring
  | GetOvmContractNonce hexstring
  | GetCodeContractBytecode hexstring
  | RegisterCreatedContract hexstring
  | IncrementOvmContractNonce hexstring
  | GetCodeContractAddressFromOvmAddress hexstring

text \<open>
  What the executor reaches through \<open>this._vm\<close>, none of it among the sources, taken as
  parameters: the contract registry, the two \<open>Message\<close> methods \<open>toOvmMessage\<close> and
  \<open>isTargetMessage\<close>, the fork configuration \<open>_common\<close>, the precompile registry,
  \<open>toHexAddress\<close> of buffer-utils, and the ABI coder of the StateManager interface
  (\<open>decodeFunctionData\<close> is \<open>None\<close> where ethers throws).
\<close>

record vm =
  mockOVM_ECDSAContractAccount_code :: hexstring
  OVM_ExecutionManager_address :: bytes
  OVM_StateManager_address :: bytes
  getContractByName :: "string \<Rightarrow> contract option"
  getContract :: "bytes \<Rightarrow> contract option"
  toOvmMessage :: "message \<Rightarrow> message"
  isTargetMessage :: "message \<Rightarrow> bool"
  gteHardfork :: "string \<Rightarrow> bool"
  param :: "string \<Rightarrow> string \<Rightarrow> nat"
  allowUnlimitedContractSize :: bool
  getPrecompile :: "bytes \<Rightarrow> (bytes \<Rightarrow> int \<Rightarrow> ExecResult) option"
  toHexAddress :: "bytes \<Rightarrow> hexstring"
  decodeFunctionData :: "bytes \<Rightarrow> sm_call option"
  encodeFunctionResult :: "sm_call \<Rightarrow> hexstring list \<Rightarrow> hexstring"

text \<open>
  The executor's own fields: \<open>_state\<close>, \<open>_refund\<close>, \<open>_targetMessage\<close>,
  \<open>_targetMessageResult\<close>, \<open>_accountMessageResult\<close>.
\<close>

record evm =
  state :: stateview
  refund :: int
  targetMessage :: "message option"
  targetMessageResult :: "EVMResult option"
  accountMessageResult :: "EVMResult option"

text \<open>
  One run of the interpreter as the executor sees it: \<open>interpreterRes.exceptionError\<close>,
  \<open>eei._gasLeft\<close> and the fields of \<open>eei._result\<close>. The opcode handlers and the EEI are
  not among the sources, so the run is a parameter: a function of the message and the
  executor, which may change any field of the executor (storage writes, refunds, nested
  messages) and may throw.
\<close>

record interp_run =
  ir_exceptionError :: "exception option"
  eei_gasLeft :: int
  eei_logs :: "log list"
  eei_returnValue :: "bytes option"
  eei_selfdestruct :: "(string \<times> bytes) list"

type_synonym interpreter = "message \<Rightarrow> evm \<Rightarrow> exception + (interp_run \<times> evm)"

section \<open>OVM state bridge (source part 004, class \<open>OvmStateManager\<close>)\<close>

text \<open>
  Modelled from the spec: the Buffer an \<open>Account\<close> holds for a number (section 3) is its
  big-endian bytes without leading zero bytes, the empty Buffer for zero.
\<close>

function numberBuffer :: "nat \<Rightarrow> bytes" where
  "numberBuffer n = (if n = 0 then [] else numberBuffer (n div 256) @ [of_nat (n mod 256)])"
  by pat_completeness auto
termination
  by (relation "measure (\<lambda>n. n)") auto

text \<open>\<open>new BN(buffer)\<close> of bn.js: the number a Buffer denotes, read big-endian.\<close>

definition bufferValue :: "bytes \<Rightarrow> nat" where
  "bufferValue b = foldl (\<lambda>a x. 256 * a + unat x) 0 b"

text \<open>
  \<open>toArrayLike(Buffer)\<close> of bn.js (an external library) on the magnitude of a BN: its
  big-endian bytes in \<open>Math.max(1, byteLength)\<close> bytes, so zero is the single byte \<open>00\<close>.
  The sign of the BN is not written.
\<close>

definition toArrayLike :: "nat \<Rightarrow> bytes" where
  "toArrayLike n = (if n = 0 then [0x00] else numberBuffer n)"

text \<open>
  Each handler takes the decoded arguments and the state view behind \<open>vm.pStateManager\<close>
  and returns the state view it leaves; a handler that returns \<open>[string]\<close> returns a
  one-element list, one that returns \<open>void\<close> returns nothing.
\<close>

definition associateCodeContract :: "hexstring \<Rightarrow> hexstring \<Rightarrow> stateview \<Rightarrow> stateview" where
  "associateCodeContract ovmContractAddress codeContractAddress st = st"

definition setStorage :: "hexstring \<Rightarrow> hexstring \<Rightarrow> hexstring \<Rightarrow> stateview \<Rightarrow> stateview" where
  "setStorage ovmContractAddress slot v st =
     putContractStorage st (fromHexString ovmContractAddress) (fromHexString slot) (fromHexString v)"

definition getStorageView :: "hexstring \<Rightarrow> hexstring \<Rightarrow> stateview \<Rightarrow> hexstring list" where
  "getStorageView ovmContractAddress slot st =
     (let ret = getContractStorage st (fromHexString ovmContractAddress) (fromHexString slot)
      in [if length ret \<noteq> 0 then toHexString ret else NULL_BYTES32])"

definition getStorage :: "hexstring \<Rightarrow> hexstring \<Rightarrow> stateview \<Rightarrow> hexstring list" where
  "getStorage ovmContractAddress slot st = getStorageView ovmContractAddress slot st"

definition getOvmContractNonce :: "hexstring \<Rightarrow> stateview \<Rightarrow> hexstring list" where
  "getOvmContractNonce ovmContractAddress st =
     (let account = getAccount st (fromHexString ovmContractAddress)
      in [if length (numberBuffer (nonce account)) \<noteq> 0
          then toHexString (numberBuffer (nonce account)) else [0x00]])"

definition getCodeContractBytecode :: "hexstring \<Rightarrow> stateview \<Rightarrow> hexstring list" where
  "getCodeContractBytecode ovmContractAddress st =
     (let c = getContractCode st (fromHexString ovmContractAddress) in [toHexString c])"

definition registerCreatedContract :: "hexstring \<Rightarrow> stateview \<Rightarrow> stateview" where
  "registerCreatedContract ovmContractAddress st = st"

definition incrementOvmContractNonce :: "hexstring \<Rightarrow> stateview \<Rightarrow> stateview" where
  "incrementOvmContractNonce ovmContractAddress st =
     (let account = getAccount st (fromHexString ovmContractAddress);
          account1 = account\<lparr>nonce := nonce account + 1\<rparr>
      in putAccount st (fromHexString ovmContractAddress) account1)"

definition getCodeContractAddressFromOvmAddress :: "hexstring \<Rightarrow> stateview \<Rightarrow> hexstring list" where
  "getCodeContractAddressFromOvmAddress ovmContractAddress st = [ovmContractAddress]"

text \<open>\<open>this._handlers[fragment.name](...functionArgs)\<close>: the returned value and the state left.\<close>

fun handlers :: "sm_call \<Rightarrow> stateview \<Rightarrow> hexstring list \<times> stateview" where
  "handlers (AssociateCodeContract a b) st = ([], associateCodeContract a b st)"
| "handlers (SetStorage a k v) st = ([], setStorage a k v st)"
| "handlers (GetStorage a k) st = (getStorage a k st, st)"
| "handlers (GetStorageView a k) st = (getStorageView a k st, st)"
| "handlers (GetOvmContractNonce a) st = (getOvmContractNonce a st, st)"
| "handlers (GetCodeContractBytecode a) st = (getCodeContractBytecode a st, st)"
| "handlers (RegisterCreatedContract a) st = ([], registerCreatedContract a st)"
| "handlers (IncrementOvmContractNonce a) st = ([], incrementOvmContractNonce a st)"
| "handlers (GetCodeContractAddressFromOvmAddress a) st =
     (getCodeContractAddressFromOvmAddress a st, st)"

text \<open>
  \<open>handleCall\<close> (lines 42--55): decode the selector and the arguments (ethers throws on
  an unknown selector or malformed arguments), run the handler, encode what it returns.
\<close>

definition handleCall :: "vm \<Rightarrow> message \<Rightarrow> stateview \<Rightarrow> exception + (bytes \<times> stateview)" where
  "handleCall v message st =
     (case decodeFunctionData v (data message) of
        None \<Rightarrow> Inl (JsError ''no matching function'')
      | Some call \<Rightarrow>
          (let (ret, st1) = handlers call st;
               encodedRet = encodeFunctionResult v call ret
           in Inr (fromHexString encodedRet, st1)))"

section \<open>EVM executor (packages/vm/lib/evm/evm.ts, class \<open>EVM\<close>)\<close>

text \<open>
  A method keeps its name without the leading underscore (\<open>_executeCall\<close> is
  \<open>executeCall\<close>). Every method takes the executor's fields (\<open>evm\<close>) and returns them
  updated; a method that can throw returns a sum, with \<open>Inl\<close> for the throw. The methods
  \<open>_executeCall\<close> and \<open>_executeCreate\<close> assign to fields of their \<open>message\<close> argument, which
  \<open>executeMessage\<close> reads afterwards, so they return the message too. The \<open>_emit\<close> calls
  (advisory events) and \<open>console.error\<close> have no part in the result and are left out.
\<close>

definition OOGResult :: "int \<Rightarrow> ExecResult" where
  "OOGResult gl =
     \<lparr>exceptionError = Some (VmError OUT_OF_GAS), gas = None, gasUsed = gl, returnValue = [],
      logs = None, selfdestruct = None, gasRefund = None\<rparr>"

text \<open>
  \<open>message.to\<close> where the source reads it as a Buffer. It is present on every path that
  reads it; \<open>toBuffer(undefined)\<close> is the empty Buffer.
\<close>

definition toBuffer :: "bytes option \<Rightarrow> bytes" where
  "toBuffer a = (case a of None \<Rightarrow> [] | Some b \<Rightarrow> b)"

text \<open>
  \<open>toBuffer(newBalance)\<close> of ethereumjs-util on a BN is \<open>newBalance.toArrayLike(Buffer)\<close>:
  the bytes of its magnitude. Read back as a number, the stored balance is the absolute
  value.
\<close>

definition toBuffer_BN :: "int \<Rightarrow> int" where
  "toBuffer_BN n = \<bar>n\<bar>"

text \<open>
  \<open>_reduceSenderBalance\<close> (lines 561--565): no check that the balance suffices; an
  under-funded sender is left with the magnitude of the difference.
\<close>

definition reduceSenderBalance :: "account \<Rightarrow> message \<Rightarrow> stateview \<Rightarrow> stateview" where
  "reduceSenderBalance account message st =
     (let newBalance = balance account - msg_value message
      in putAccount st (caller message) (account\<lparr>balance := toBuffer_BN newBalance\<rparr>))"

text \<open>\<open>_addToBalance\<close> (lines 567--575): throws \<open>VALUE_OVERFLOW\<close> before it writes.\<close>

definition addToBalance :: "account \<Rightarrow> message \<Rightarrow> stateview \<Rightarrow> exception + stateview" where
  "addToBalance toAccount message st =
     (let newBalance = balance toAccount + msg_value message
      in if newBalance > MAX_INTEGER then Inl (VmError VALUE_OVERFLOW)
         else Inr (putAccount st (toBuffer (to message))
                     (toAccount\<lparr>balance := toBuffer_BN newBalance\<rparr>)))"

text \<open>\<open>_loadCode\<close> (lines 537--548).\<close>

definition loadCode :: "vm \<Rightarrow> message \<Rightarrow> stateview \<Rightarrow> message" where
  "loadCode v message st =
     (if code message = None then
        (case getPrecompile v (codeAddress message) of
           Some precompile \<Rightarrow> message\<lparr>code := Some (Precompile precompile), isCompiled := True\<rparr>
         | None \<Rightarrow>
             message\<lparr>code := Some (Bytecode (getContractCode st (codeAddress message))),
                     isCompiled := False\<rparr>)
      else message)"

text \<open>The test \<open>!message.code || message.code.length === 0\<close>.\<close>

definition noCode :: "message \<Rightarrow> bool" where
  "noCode message = (case code message of None \<Rightarrow> True | Some c \<Rightarrow> code_length c = 0)"

text \<open>\<open>runPrecompile\<close> (lines 523--535).\<close>

definition runPrecompile :: "msgcode option \<Rightarrow> bytes \<Rightarrow> int \<Rightarrow> exception + ExecResult" where
  "runPrecompile c d gl =
     (case c of
        Some (Precompile f) \<Rightarrow> Inr (f d gl)
      | _ \<Rightarrow> Inl (JsError ''Invalid precompile''))"

text \<open>
  \<open>runInterpreter\<close> (lines 455--510). Building \<open>env\<close> and the EEI only reads; the run
  itself is the parameter \<open>run\<close>. Lines 477--509 are modelled line by line.
\<close>

definition runInterpreter :: "interpreter \<Rightarrow> message \<Rightarrow> evm \<Rightarrow> exception + (ExecResult \<times> evm)" where
  "runInterpreter run message e =
     (let oldRefund = refund e
      in case run message e of
           Inl x \<Rightarrow> Inl x
         | Inr (ir, e1) \<Rightarrow>
             (let gasUsed0 = gasLimit message - eei_gasLeft ir;
                  failed = (ir_exceptionError ir \<noteq> None);
                  gasUsed1 = (case ir_exceptionError ir of
                                None \<Rightarrow> gasUsed0
                              | Some x \<Rightarrow>
                                  if error_of x \<noteq> Some REVERT then gasLimit message else gasUsed0);
                  e2 = (if failed then e1\<lparr>refund := oldRefund\<rparr> else e1)
              in Inr (\<lparr>exceptionError = ir_exceptionError ir,
                       gas = Some (eei_gasLeft ir),
                       gasUsed = gasUsed1,
                       returnValue = (case eei_returnValue ir of Some r \<Rightarrow> r | None \<Rightarrow> []),
                       logs = Some (if failed then [] else eei_logs ir),
                       selfdestruct = Some (if failed then [] else eei_selfdestruct ir),
                       gasRefund = None\<rparr>, e2)))"

text \<open>\<open>_executeCall\<close> (lines 303--346).\<close>

definition executeCall ::
  "vm \<Rightarrow> interpreter \<Rightarrow> message \<Rightarrow> evm \<Rightarrow> exception + (EVMResult \<times> message \<times> evm)" where
  "executeCall v run message e =
     (let account = getAccount (state e) (caller message);
          st1 = (if \<not> delegatecall message
                 then reduceSenderBalance account message (state e) else state e);
          toAccount = getAccount st1 (toBuffer (to message));
          credit = (if \<not> delegatecall message
                    then addToBalance toAccount message st1 else Inr st1);
          errorMessage = (case credit of Inl x \<Rightarrow> Some x | Inr s \<Rightarrow> None);
          st2 = (case credit of Inl x \<Rightarrow> st1 | Inr s \<Rightarrow> s);
          message1 = loadCode v message st2;
          e2 = e\<lparr>state := st2\<rparr>
      in if noCode message1 \<or> errorMessage \<noteq> None then
           Inr (\<lparr>res_gasUsed = 0, createdAddress = None,
                 execResult = \<lparr>exceptionError = errorMessage, gas = None, gasUsed = 0,
                               returnValue = [], logs = None, selfdestruct = None,
                               gasRefund = None\<rparr>\<rparr>, message1, e2)
         else if isCompiled message1 then
           (case runPrecompile (code message1) (data message1) (gasLimit message1) of
              Inl x \<Rightarrow> Inl x
            | Inr result \<Rightarrow>
                Inr (\<lparr>res_gasUsed = gasUsed result, createdAddress = None,
                      execResult = result\<rparr>, message1, e2))
         else
           (case runInterpreter run message1 e2 of
              Inl x \<Rightarrow> Inl x
            | Inr (result, e3) \<Rightarrow>
                Inr (\<lparr>res_gasUsed = gasUsed result, createdAddress = None,
                      execResult = result\<rparr>, message1, e3)))"

text \<open>
  \<open>_generateAddress\<close> (lines 550--559): the address is read from slot \<open>0x00..0f\<close> of the
  Execution Manager's storage, whatever the message.
\<close>

definition generateAddress :: "vm \<Rightarrow> stateview \<Rightarrow> message \<Rightarrow> bytes" where
  "generateAddress v st message =
     fromHexString (toHexAddress v
       (getContractStorage st (OVM_ExecutionManager_address v) (replicate 31 0x00 @ [0x0f])))"

text \<open>
  \<open>_executeCreate\<close>, lines 410--449: what is done with the interpreter's result.
\<close>

definition executeCreate_finish ::
  "vm \<Rightarrow> message \<Rightarrow> ExecResult \<Rightarrow> evm \<Rightarrow> EVMResult \<times> message \<times> evm" where
  "executeCreate_finish v message result e =
     (let totalGas = (if exceptionError result = None
                      then gasUsed result
                           + int (length (returnValue result) * param v ''gasPrices'' ''createData'')
                      else gasUsed result);
          allowedCodeSize = (\<not> (gteHardfork v ''spuriousDragon''
                                 \<and> length (returnValue result) > param v ''vm'' ''maxCodeSize''));
          result1 = (if totalGas \<le> gasLimit message
                        \<and> (allowUnlimitedContractSize v \<or> allowedCodeSize)
                     then result\<lparr>gasUsed := totalGas\<rparr>
                     else result\<lparr>returnValue := returnValue (OOGResult (gasLimit message)),
                                 gasUsed := gasUsed (OOGResult (gasLimit message)),
                                 exceptionError := exceptionError (OOGResult (gasLimit message))\<rparr>);
          st1 = (if exceptionError result1 = None \<and> returnValue result1 \<noteq> []
                 then putContractCode (state e) (toBuffer (to message)) (returnValue result1)
                 else state e)
      in (\<lparr>res_gasUsed = gasUsed result1, createdAddress = to message, execResult = result1\<rparr>,
          message, e\<lparr>state := st1\<rparr>))"

text \<open>
  \<open>_executeCreate\<close>, lines 373--410: after the collision check. The credit error is kept
  in \<open>errorMessage\<close> and read only by the early return for empty code.
\<close>

definition executeCreate_deploy ::
  "vm \<Rightarrow> interpreter \<Rightarrow> message \<Rightarrow> evm \<Rightarrow> exception + (EVMResult \<times> message \<times> evm)" where
  "executeCreate_deploy v run message e =
     (let st1 = clearContractStorage (state e) (toBuffer (to message));
          toAccount = getAccount st1 (toBuffer (to message));
          toAccount1 = (if gteHardfork v ''spuriousDragon''
                        then toAccount\<lparr>nonce := nonce toAccount + 1\<rparr> else toAccount);
          credit = addToBalance toAccount1 message st1;
          errorMessage = (case credit of Inl x \<Rightarrow> Some x | Inr s \<Rightarrow> None);
          st2 = (case credit of Inl x \<Rightarrow> st1 | Inr s \<Rightarrow> s);
          e2 = e\<lparr>state := st2\<rparr>
      in if noCode message then
           Inr (\<lparr>res_gasUsed = 0, createdAddress = to message,
                 execResult = \<lparr>exceptionError = errorMessage, gas = None, gasUsed = 0,
                               returnValue = [], logs = None, selfdestruct = None,
                               gasRefund = None\<rparr>\<rparr>, message, e2)
         else
           (case runInterpreter run message e2 of
              Inl x \<Rightarrow> Inl x
            | Inr (result, e3) \<Rightarrow> Inr (executeCreate_finish v message result e3)))"

text \<open>\<open>_executeCreate\<close> (lines 348--449), from its start to the collision check.\<close>

definition executeCreate ::
  "vm \<Rightarrow> interpreter \<Rightarrow> message \<Rightarrow> evm \<Rightarrow> exception + (EVMResult \<times> message \<times> evm)" where
  "executeCreate v run message e =
     (let account = getAccount (state e) (caller message);
          st1 = reduceSenderBalance account message (state e);
          message1 = message\<lparr>code := Some (Bytecode (data message)), data := []\<rparr>;
          message2 = message1\<lparr>to := Some (generateAddress v st1 message1)\<rparr>;
          toAccount = getAccount st1 (toBuffer (to message2));
          e1 = e\<lparr>state := st1\<rparr>
      in if 0 < nonce toAccount \<or> codeHash toAccount \<noteq> KECCAK256_NULL then
           Inr (\<lparr>res_gasUsed = gasLimit message2, createdAddress = to message2,
                 execResult = \<lparr>exceptionError = Some (VmError CREATE_COLLISION), gas = None,
                               gasUsed = gasLimit message2, returnValue = [], logs = None,
                               selfdestruct = None, gasRefund = None\<rparr>\<rparr>, message2, e1)
         else executeCreate_deploy v run message2 e1)"

subsection \<open>\<open>executeMessage\<close> (lines 124--301), in its consecutive blocks\<close>

text \<open>
  Lines 127--144: open the checkpoint; at depth 0 install the mock account code at a
  caller without code and rewrite the message; latch the target message. The stored
  \<open>_targetMessage\<close> is only ever tested for presence.
\<close>

definition enterMessage :: "vm \<Rightarrow> message \<Rightarrow> evm \<Rightarrow> message \<times> bool \<times> evm" where
  "enterMessage v message e =
     (let st1 = checkpoint (state e);
          st2 = (if depth message = 0 then
                   (let c = getContractCode st1 (caller message)
                    in if length c = 0
                       then putContractCode st1 (caller message)
                              (fromHexString (mockOVM_ECDSAContractAccount_code v))
                       else st1)
                 else st1);
          message1 = (if depth message = 0 then toOvmMessage v message else message);
          isTarget = (targetMessage e = None \<and> isTargetMessage v message1);
          e1 = e\<lparr>state := st2,
                 targetMessage := (if isTarget then Some message1 else targetMessage e)\<rparr>
      in (message1, isTarget, e1))"

text \<open>Lines 148--153 and the test of line 215: which contract \<open>message.to\<close> resolves to.\<close>

definition resolveTarget :: "vm \<Rightarrow> stateview \<Rightarrow> bytes \<Rightarrow> contract option" where
  "resolveTarget v st toAddr =
     (let c = getContractCode st toAddr;
          isECDSAContractAccount = (toHexString c = mockOVM_ECDSAContractAccount_code v)
      in if isECDSAContractAccount then getContractByName v ''mockOVM_ECDSAContractAccount''
         else getContract v toAddr)"

definition isStateManager :: "contract option \<Rightarrow> bool" where
  "isStateManager target = (case target of None \<Rightarrow> False | Some t \<Rightarrow> name t = ''OVM_StateManager'')"

text \<open>Lines 146--228: the dispatch.\<close>

definition dispatchMessage ::
  "vm \<Rightarrow> interpreter \<Rightarrow> message \<Rightarrow> evm \<Rightarrow> exception + (EVMResult \<times> message \<times> evm)" where
  "dispatchMessage v run message e =
     (case to message of
        Some toAddr \<Rightarrow>
          if isStateManager (resolveTarget v (state e) toAddr) then
            (case handleCall v message (state e) of
               Inl x \<Rightarrow> Inl x
             | Inr (rv, st1) \<Rightarrow>
                 Inr (\<lparr>res_gasUsed = 0, createdAddress = None,
                       execResult = \<lparr>exceptionError = None, gas = None, gasUsed = 0,
                                     returnValue = rv, logs = None, selfdestruct = None,
                                     gasRefund = None\<rparr>\<rparr>, message, e\<lparr>state := st1\<rparr>))
          else executeCall v run message e
      | None \<Rightarrow> executeCreate v run message e)"

text \<open>
  Lines 232--244: attach the refund counter; on \<open>exceptionError\<close> clear the logs and
  revert, otherwise commit; record the target's result.
\<close>

definition settleMessage :: "bool \<Rightarrow> EVMResult \<Rightarrow> evm \<Rightarrow> EVMResult \<times> evm" where
  "settleMessage isTarget result e =
     (let result1 = result\<lparr>execResult := (execResult result)\<lparr>gasRefund := Some (refund e)\<rparr>\<rparr>;
          err = exceptionError (execResult result1);
          result2 = (if err \<noteq> None
                     then result1\<lparr>execResult := (execResult result1)\<lparr>logs := Some []\<rparr>\<rparr>
                     else result1);
          e1 = e\<lparr>state := (if err \<noteq> None then revert (state e) else commit (state e))\<rparr>;
          e2 = (if isTarget then e1\<lparr>targetMessageResult := Some result2\<rparr> else e1)
      in (result2, e2))"

text \<open>
  Lines 250--289, the body of \<open>if (message.depth === 0)\<close>. When this message is itself
  the target, \<open>_targetMessageResult\<close> is the very object \<open>result\<close>, so the assignment to
  \<open>result.execResult.logs\<close> shows in it too.
\<close>

definition reconcileOvm :: "vm \<Rightarrow> bool \<Rightarrow> EVMResult \<Rightarrow> evm \<Rightarrow> EVMResult \<times> evm" where
  "reconcileOvm v isTarget result e =
     (case targetMessageResult e of
        Some tr \<Rightarrow>
          (let execResult1 =
                 (case logs (execResult result) of
                    Some ls \<Rightarrow>
                      (execResult result)\<lparr>logs :=
                         Some (filter (\<lambda>l. fst l \<noteq> OVM_ExecutionManager_address v) ls)\<rparr>
                  | None \<Rightarrow> execResult result);
               result1 = result\<lparr>execResult := execResult1\<rparr>;
               e1 = (if isTarget then e\<lparr>targetMessageResult := Some result1\<rparr> else e);
               returnData0 = returnValue (execResult tr);
               returnData = (if exceptionError (execResult tr) \<noteq> None \<and> 160 \<le> length returnData0
                             then drop 160 returnData0 else returnData0);
               EOAReturnedFalse =
                 (case accountMessageResult e1 of
                    None \<Rightarrow> False
                  | Some ar \<Rightarrow> take 32 (returnValue (execResult ar)) = replicate 32 0x00);
               wasDeployException = (EOAReturnedFalse \<and> exceptionError (execResult tr) = None);
               exceptionError1 = (if wasDeployException then Some (VmError REVERT)
                                  else exceptionError (execResult tr))
           in (result1\<lparr>createdAddress := createdAddress tr,
                       execResult := execResult1\<lparr>returnValue := returnData,
                                                exceptionError := exceptionError1\<rparr>\<rparr>, e1))
      | None \<Rightarrow>
          (result\<lparr>execResult := (execResult result)\<lparr>exceptionError := Some (VmError OVM_ERROR)\<rparr>\<rparr>,
           e))"

text \<open>
  Lines 291--296. \<open>message.to.toString()\<close> throws a TypeError on an absent \<open>to\<close>; the two
  addresses are compared as byte sequences.
\<close>

definition recordAccountMessage :: "vm \<Rightarrow> message \<Rightarrow> EVMResult \<Rightarrow> evm \<Rightarrow> exception + evm" where
  "recordAccountMessage v message result e =
     (if depth message = 1 then
        (case to message of
           None \<Rightarrow> Inl (JsError ''TypeError'')
         | Some a \<Rightarrow>
             if a \<noteq> OVM_StateManager_address v
             then Inr (e\<lparr>accountMessageResult := Some result\<rparr>) else Inr e)
      else Inr e)"

definition executeMessage ::
  "vm \<Rightarrow> interpreter \<Rightarrow> message \<Rightarrow> evm \<Rightarrow> exception + (EVMResult \<times> evm)" where
  "executeMessage v run message e =
     (case enterMessage v message e of
        (message1, isTarget, e1) \<Rightarrow>
          (case dispatchMessage v run message1 e1 of
             Inl x \<Rightarrow> Inl x
           | Inr (result, message2, e2) \<Rightarrow>
               (case settleMessage isTarget result e2 of
                  (result1, e3) \<Rightarrow>
                    (case (if depth message2 = 0 then reconcileOvm v isTarget result1 e3
                           else (result1, e3)) of
                       (result2, e4) \<Rightarrow>
                         (case recordAccountMessage v message2 result2 e4 of
                            Inl x \<Rightarrow> Inl x
                          | Inr e5 \<Rightarrow> Inr (result2, e5))))))"

section \<open>The older variant of evm.ts (source part 003), \<open>_generateAddress\<close>\<close>

text \<open>
  Modelled from the spec: \<open>generateAddress\<close> and \<open>generateAddress2\<close> belong to the
  external library ethereumjs-util. Per section 4.6 they are
  \<open>keccak256(rlp(caller, nonce))[12:]\<close> and
  \<open>keccak256(0xff || caller || salt || keccak256(code))[12:]\<close>; the hash and the RLP
  encoder of the pair (caller, nonce Buffer) are parameters.
\<close>

definition util_generateAddress ::
  "(bytes \<Rightarrow> bytes) \<Rightarrow> (bytes \<Rightarrow> bytes \<Rightarrow> bytes) \<Rightarrow> bytes \<Rightarrow> bytes \<Rightarrow> bytes" where
  "util_generateAddress keccak256 rlp from n = drop 12 (keccak256 (rlp from n))"

definition util_generateAddress2 ::
  "(bytes \<Rightarrow> bytes) \<Rightarrow> bytes \<Rightarrow> bytes \<Rightarrow> bytes \<Rightarrow> bytes" where
  "util_generateAddress2 keccak256 from slt initCode =
     drop 12 (keccak256 ([0xff] @ from @ slt @ keccak256 initCode))"

text \<open>\<open>message.code as Buffer\<close>.\<close>

definition code_bytes :: "msgcode option \<Rightarrow> bytes" where
  "code_bytes c = (case c of Some (Bytecode b) \<Rightarrow> b | _ \<Rightarrow> [])"

text \<open>
  \<open>_generateAddress\<close> of source part 003 (lines 467--486), with the executor's field
  \<open>_isOvmCall\<close> as an argument. Its OVM branch reads slot \<open>0x00..05\<close>. Its last branch
  passes \<open>new BN(acc.nonce).subn(1).toArrayLike(Buffer)\<close>: the bytes of the magnitude of
  \<open>nonce - 1\<close>, which at nonce 0 is the byte \<open>01\<close>.
\<close>

definition generateAddress_part003 ::
  "vm \<Rightarrow> (bytes \<Rightarrow> bytes) \<Rightarrow> (bytes \<Rightarrow> bytes \<Rightarrow> bytes) \<Rightarrow> bool \<Rightarrow> stateview \<Rightarrow> message \<Rightarrow> bytes" where
  "generateAddress_part003 v keccak256 rlp isOvmCall st message =
     (if isOvmCall then
        fromHexString (toHexAddress v
          (getContractStorage st (OVM_ExecutionManager_address v) (replicate 31 0x00 @ [0x05])))
      else
        (case salt message of
           Some s \<Rightarrow> util_generateAddress2 keccak256 (caller message) s (code_bytes (code message))
         | None \<Rightarrow>
             (let acc = getAccount st (caller message);
                  newNonce = int (nonce acc) - 1
              in util_generateAddress keccak256 rlp (caller message)
                   (toArrayLike (nat \<bar>newNonce\<bar>)))))"

section \<open>A concrete configuration\<close>

text \<open>
  Concrete addresses, a host, a state and messages, used to run the definitions on
  explicit inputs. The host's registry knows the Execution Manager and the StateManager;
  its \<open>toOvmMessage\<close> re-targets the message to the Execution Manager; its target
  predicate holds of depth-1 calls away from the two pseudo-contracts; its ABI coder for
  the StateManager reads a one-byte selector.
\<close>

definition ex_EM :: bytes where
  "ex_EM = [0, 0, 0, 0, 0, 0, 0, 0, 0, 0, 0, 0, 0, 0, 0, 0, 0xde, 0xad, 0x00, 0x00]"

definition ex_SM :: bytes where
  "ex_SM = [0, 0, 0, 0, 0, 0, 0, 0, 0, 0, 0, 0, 0, 0, 0, 0, 0xde, 0xad, 0x00, 0x01]"

definition ex_alice :: bytes where
  "ex_alice = [0xa1, 0, 0, 0, 0, 0, 0, 0, 0, 0, 0, 0, 0, 0, 0, 0, 0, 0, 0, 0x01]"

definition ex_bob :: bytes where
  "ex_bob = [0xb0, 0, 0, 0, 0, 0, 0, 0, 0, 0, 0, 0, 0, 0, 0, 0, 0, 0, 0, 0x02]"

definition ex_slot :: bytes where
  "ex_slot = replicate 31 0x00 @ [0x07]"

definition ex_decode :: "bytes \<Rightarrow> sm_call option" where
  "ex_decode d =
     (case d of
        [] \<Rightarrow> None
      | s # args \<Rightarrow>
          if s = 0x01 then Some (SetStorage (take 20 args) (take 32 (drop 20 args)) (drop 52 args))
          else if s = 0x02 then Some (GetStorage (take 20 args) (drop 20 args))
          else None)"

definition ex_vm :: vm where
  "ex_vm =
     \<lparr>mockOVM_ECDSAContractAccount_code = [0xec, 0xd5, 0xa0],
      OVM_ExecutionManager_address = ex_EM,
      OVM_StateManager_address = ex_SM,
      getContractByName = (\<lambda>n. Some \<lparr>name = n\<rparr>),
      getContract = (\<lambda>a. if a = ex_EM then Some \<lparr>name = ''OVM_ExecutionManager''\<rparr>
                          else if a = ex_SM then Some \<lparr>name = ''OVM_StateManager''\<rparr>
                          else None),
      toOvmMessage = (\<lambda>m. m\<lparr>to := Some ex_EM, codeAddress := ex_EM,
                              originalTargetAddress := to m\<rparr>),
      isTargetMessage = (\<lambda>m. depth m = 1 \<and> to m \<noteq> Some ex_EM \<and> to m \<noteq> Some ex_SM),
      gteHardfork = (\<lambda>n. True),
      param = (\<lambda>c n. if n = ''createData'' then 200 else 24576),
      allowUnlimitedContractSize = False,
      getPrecompile = (\<lambda>a. None),
      toHexAddress = (\<lambda>b. drop 12 b),
      decodeFunctionData = ex_decode,
      encodeFunctionResult = (\<lambda>c rets. concat rets)\<rparr>"

definition ex_account :: account where
  "ex_account = \<lparr>nonce = 0, balance = 0, stateRoot = [], codeHash = KECCAK256_NULL\<rparr>"

text \<open>
  A state with no open checkpoint: the Execution Manager holds one byte of code, Bob's
  contract holds the single opcode \<open>0xfd\<close>, Alice owns 100.
\<close>

definition ex_world :: world where
  "ex_world =
     \<lparr>accounts = (\<lambda>a. if a = ex_alice then ex_account\<lparr>balance := 100\<rparr> else ex_account),
      contractCode = (\<lambda>a. if a = ex_EM then [0x00] else if a = ex_bob then [0xfd] else []),
      contractStorage = (\<lambda>a k. None)\<rparr>"

definition ex_state :: stateview where
  "ex_state = \<lparr>current = ex_world, checkpoints = []\<rparr>"

definition ex_evm :: evm where
  "ex_evm = \<lparr>state = ex_state, refund = 0, targetMessage = None, targetMessageResult = None,
             accountMessageResult = None\<rparr>"

text \<open>A call from \<open>c\<close> to \<open>t\<close> at depth \<open>d\<close> carrying value \<open>n\<close> and data \<open>dat\<close>.\<close>

definition ex_call :: "bytes \<Rightarrow> bytes \<Rightarrow> nat \<Rightarrow> int \<Rightarrow> bytes \<Rightarrow> message" where
  "ex_call c t d n dat =
     \<lparr>caller = c, to = Some t, msg_value = n, data = dat, code = None, gasLimit = 21000,
      depth = d, isStatic = False, delegatecall = False, salt = None, codeAddress = t,
      originalTargetAddress = None, isCompiled = False, msg_selfdestruct = None\<rparr>"

text \<open>A creation message from \<open>c\<close> at depth \<open>d\<close> with init code \<open>dat\<close>.\<close>

definition ex_create :: "bytes \<Rightarrow> nat \<Rightarrow> int \<Rightarrow> bytes \<Rightarrow> message" where
  "ex_create c d n dat =
     \<lparr>caller = c, to = None, msg_value = n, data = dat, code = None, gasLimit = 21000,
      depth = d, isStatic = False, delegatecall = False, salt = None, codeAddress = [],
      originalTargetAddress = None, isCompiled = False, msg_selfdestruct = None\<rparr>"

text \<open>An interpreter run that ends in \<open>REVERT\<close> with 100 gas left and touches nothing.\<close>

definition ex_run_revert :: interpreter where
  "ex_run_revert m x =
     Inr (\<lparr>ir_exceptionError = Some (VmError REVERT), eei_gasLeft = 100, eei_logs = [],
           eei_returnValue = Some [], eei_selfdestruct = []\<rparr>, x)"

text \<open>An interpreter run that adds 7 to the refund counter and then ends in
  \<open>OUT_OF_GAS\<close> with 40 gas left.\<close>

definition ex_run_oog :: interpreter where
  "ex_run_oog m x =
     Inr (\<lparr>ir_exceptionError = Some (VmError OUT_OF_GAS), eei_gasLeft = 40, eei_logs = [],
           eei_returnValue = None, eei_selfdestruct = []\<rparr>, x\<lparr>refund := refund x + 7\<rparr>)"

text \<open>An interpreter run that ends normally with 1000 gas left, returns one byte and adds
  7 to the refund counter.\<close>

definition ex_run_ok :: interpreter where
  "ex_run_ok m x =
     Inr (\<lparr>ir_exceptionError = None, eei_gasLeft = 1000, eei_logs = [],
           eei_returnValue = Some [0x00], eei_selfdestruct = []\<rparr>, x\<lparr>refund := refund x + 7\<rparr>)"

text \<open>An interpreter run that ends normally with 500 gas left and returns 32 zero bytes.\<close>

definition ex_run_zero :: interpreter where
  "ex_run_zero m x =
     Inr (\<lparr>ir_exceptionError = None, eei_gasLeft = 500, eei_logs = [],
           eei_returnValue = Some (replicate 32 0x00), eei_selfdestruct = []\<rparr>, x)"

text \<open>An interpreter run that ends in \<open>REVERT\<close> with 100 gas left and 32 bytes of revert data.\<close>

definition ex_run_revert32 :: interpreter where
  "ex_run_revert32 m x =
     Inr (\<lparr>ir_exceptionError = Some (VmError REVERT), eei_gasLeft = 100, eei_logs = [],
           eei_returnValue = Some (replicate 32 0x01), eei_selfdestruct = []\<rparr>, x)"

text \<open>
  An interpreter run of the entry message that stores a word in the Execution Manager's
  slot, sends the nested depth-1 message from the Execution Manager to Bob through
  \<open>executeMessage\<close> (Bob's code being run by \<open>inner\<close>), and then ends normally.
\<close>

definition ex_run_entry :: "interpreter \<Rightarrow> interpreter" where
  "ex_run_entry inner m x =
     (case executeMessage ex_vm inner (ex_call ex_EM ex_bob 1 0 [])
             (x\<lparr>state := putContractStorage (state x) ex_EM ex_slot (replicate 32 0x01)\<rparr>) of
        Inl err \<Rightarrow> Inl err
      | Inr (r, x1) \<Rightarrow>
          Inr (\<lparr>ir_exceptionError = None, eei_gasLeft = 1000, eei_logs = [],
                eei_returnValue = None, eei_selfdestruct = []\<rparr>, x1))"


text \<open>
  A state in which the Execution Manager's slot \<open>0x00..0f\<close> names Bob's address, Bob
  holds no code, Bob's account is \<open>acc\<close>, and Alice owns 100.
\<close>

definition ex_create_state :: "account \<Rightarrow> stateview" where
  "ex_create_state acc =
     ex_state\<lparr>current := ex_world\<lparr>
        accounts := (\<lambda>a. if a = ex_bob then acc
                           else if a = ex_alice then ex_account\<lparr>balance := 100\<rparr>
                           else ex_account),
        contractCode := (\<lambda>a. if a = ex_EM then [0x00] else []),
        contractStorage := (\<lambda>a k. if a = ex_EM \<and> k = replicate 31 0x00 @ [0x0f]
                                   then Some (replicate 12 0x00 @ ex_bob) else None)\<rparr>\<rparr>"

text \<open>A state in which Bob's balance is \<open>MAX_INTEGER\<close> and Alice owns 100.\<close>

definition ex_rich_state :: stateview where
  "ex_rich_state =
     ex_state\<lparr>current := ex_world\<lparr>
        accounts := (\<lambda>a. if a = ex_bob then ex_account\<lparr>balance := MAX_INTEGER\<rparr>
                           else if a = ex_alice then ex_account\<lparr>balance := 100\<rparr>
                           else ex_account)\<rparr>\<rparr>"

text \<open>
  A state in which the Execution Manager's slot \<open>0x00..0f\<close> names Bob's address and its
  slot \<open>0x00..05\<close> names Alice's.
\<close>

definition ex_two_slot_state :: stateview where
  "ex_two_slot_state =
     ex_state\<lparr>current := ex_world\<lparr>
        contractStorage := (\<lambda>a k. if a = ex_EM \<and> k = replicate 31 0x00 @ [0x0f]
                                   then Some (replicate 12 0x00 @ ex_bob)
                                   else if a = ex_EM \<and> k = replicate 31 0x00 @ [0x05]
                                   then Some (replicate 12 0x00 @ ex_alice) else None)\<rparr>\<rparr>"

text \<open>The state \<open>ex_state\<close> with Alice's nonce set to \<open>n\<close>.\<close>

definition ex_nonce_state :: "nat \<Rightarrow> stateview" where
  "ex_nonce_state n =
     ex_state\<lparr>current := ex_world\<lparr>
        accounts := (\<lambda>a. if a = ex_alice then ex_account\<lparr>nonce := n, balance := 100\<rparr>
                           else ex_account)\<rparr>\<rparr>"

text \<open>
  Stand-ins for the hash and the RLP encoder, used only to run the definitions: the
  encoder appends the nonce Buffer to the caller; the hash is 32 bytes that end in the
  length of the input and a checksum to which every byte of the input and its position
  contribute.
\<close>

definition ex_keccak256 :: "bytes \<Rightarrow> bytes" where
  "ex_keccak256 b = replicate 30 0x00 @ [of_nat (length b), foldl (\<lambda>h x. 3 * h + x + 1) 0 b]"

definition ex_rlp :: "bytes \<Rightarrow> bytes \<Rightarrow> bytes" where
  "ex_rlp a n = a @ n"

section \<open>Pre-scan: proofs\<close>

declare getValidJumpDests_loop.simps [simp del]
declare instrOffsets.simps [simp del]
declare numberBuffer.simps [simp del]

lemma immediateLen_PUSH:
  "lookupOpInfo_name b = PUSH \<Longrightarrow> immediateLen b = unat b - 0x5f"
  by (simp add: lookupOpInfo_name_def immediateLen_def split: if_splits)

lemma immediateLen_not_PUSH:
  "lookupOpInfo_name b \<noteq> PUSH \<Longrightarrow> immediateLen b = 0"
  by (auto simp add: lookupOpInfo_name_def immediateLen_def split: if_splits)

lemma JUMPDEST_byte: "lookupOpInfo_name b = JUMPDEST \<longleftrightarrow> b = 0x5b"
  by (simp add: lookupOpInfo_name_def)

lemma loop_is_filter:
  "getValidJumpDests_loop bc i jumps =
     jumps @ filter (\<lambda>p. lookupOpInfo_name (bc ! p) = JUMPDEST) (instrOffsets bc i)"
proof (induction bc i jumps rule: getValidJumpDests_loop.induct)
  case (1 bc i jumps)
  show ?case
  proof (cases "i < length bc")
    case False
    then show ?thesis
      by (simp add: getValidJumpDests_loop.simps [of bc i] instrOffsets.simps [of bc i])
  next
    case True
    note inb = True
    show ?thesis
    proof (cases "lookupOpInfo_name (bc ! i)")
      case PUSH
      with inb 1 show ?thesis
        by (simp add: getValidJumpDests_loop.simps [of bc i] instrOffsets.simps [of bc i]
            immediateLen_PUSH Let_def)
    next
      case JUMPDEST
      with inb 1 show ?thesis
        by (simp add: getValidJumpDests_loop.simps [of bc i] instrOffsets.simps [of bc i]
            immediateLen_not_PUSH Let_def)
    next
      case OTHER
      with inb 1 show ?thesis
        by (simp add: getValidJumpDests_loop.simps [of bc i] instrOffsets.simps [of bc i]
            immediateLen_not_PUSH Let_def)
    qed
  qed
qed

lemma instrOffsets_bounds:
  "q \<in> set (instrOffsets bc p) \<Longrightarrow> p \<le> q \<and> q < length bc"
proof (induction bc p rule: instrOffsets.induct)
  case (1 bc p)
  show ?case
  proof (cases "p < length bc")
    case False
    with 1 show ?thesis by (simp add: instrOffsets.simps [of bc p])
  next
    case True
    with 1 show ?thesis by (auto simp add: instrOffsets.simps [of bc p])
  qed
qed

lemma instrOffsets_disjoint:
  "a \<in> set (instrOffsets bc p) \<Longrightarrow> b \<in> set (instrOffsets bc p) \<Longrightarrow> a < b \<Longrightarrow>
     a + immediateLen (bc ! a) < b"
proof (induction bc p rule: instrOffsets.induct)
  case (1 bc p)
  show ?case
  proof (cases "p < length bc")
    case False
    with 1 show ?thesis by (simp add: instrOffsets.simps [of bc p])
  next
    case True
    let ?n = "p + 1 + immediateLen (bc ! p)"
    from True 1 have a: "a = p \<or> a \<in> set (instrOffsets bc ?n)"
      and b: "b = p \<or> b \<in> set (instrOffsets bc ?n)"
      by (simp_all add: instrOffsets.simps [of bc p])
    show ?thesis
    proof (cases "a = p")
      case True
      with b \<open>a < b\<close> have "b \<in> set (instrOffsets bc ?n)" by auto
      then have "?n \<le> b" using instrOffsets_bounds by blast
      with True show ?thesis by simp
    next
      case False
      with a have a': "a \<in> set (instrOffsets bc ?n)" by simp
      then have "?n \<le> a" using instrOffsets_bounds by blast
      with \<open>a < b\<close> have "b \<noteq> p" by simp
      with b have b': "b \<in> set (instrOffsets bc ?n)" by simp
      from "1.IH" [OF True a' b' \<open>a < b\<close>] show ?thesis .
    qed
  qed
qed

text \<open>
  C4. The pre-scan walks the code once from offset 0, stepping over the N immediate bytes
  of each PUSH-N it meets, and records exactly the offsets on that walk whose byte is the
  JUMPDEST byte \<open>0x5b\<close>. So every offset recorded in \<open>validJumps\<close> lies within the code,
  holds the JUMPDEST byte, starts an instruction of the linear decoding, and is not one of
  the immediate bytes of any PUSH-N instruction.
\<close>

theorem validJumps_are_JUMPDEST_outside_push:
  assumes "j \<in> set (getValidJumpDests bc)"
  shows "getValidJumpDests bc = filter (\<lambda>p. bc ! p = 0x5b) (instrOffsets bc 0)
         \<and> j < length bc \<and> bc ! j = 0x5b \<and> lookupOpInfo_name (bc ! j) = JUMPDEST
         \<and> j \<in> set (instrOffsets bc 0) \<and> \<not> insidePushImmediate bc j"
proof -
  have walk: "getValidJumpDests bc = filter (\<lambda>p. bc ! p = 0x5b) (instrOffsets bc 0)"
    by (simp add: getValidJumpDests_def loop_is_filter JUMPDEST_byte)
  from assms have mem: "j \<in> set (instrOffsets bc 0)"
    and jd: "lookupOpInfo_name (bc ! j) = JUMPDEST"
    by (simp_all add: getValidJumpDests_def loop_is_filter)
  have "\<not> insidePushImmediate bc j"
  proof
    assume "insidePushImmediate bc j"
    then obtain p where p: "p \<in> set (instrOffsets bc 0)" "p < j"
      "j \<le> p + immediateLen (bc ! p)"
      by (auto simp: insidePushImmediate_def)
    from instrOffsets_disjoint [OF p(1) mem p(2)] p(3) show False by simp
  qed
  with walk mem jd instrOffsets_bounds [OF mem] show ?thesis
    by (simp add: JUMPDEST_byte)
qed

theorem validJumps_witness:
  "2 \<in> set (getValidJumpDests [0x60, 0x5b, 0x5b])
   \<and> [0x60, 0x5b, 0x5b :: byte] ! 2 = 0x5b
   \<and> \<not> insidePushImmediate [0x60, 0x5b, 0x5b] 2
   \<and> getValidJumpDests [0x60, 0x5b, 0x5b] = [2]"
proof -
  have g: "getValidJumpDests [0x60, 0x5b, 0x5b] = [2]"
    by (simp add: getValidJumpDests_def getValidJumpDests_loop.simps lookupOpInfo_name_def)
  then have m: "2 \<in> set (getValidJumpDests [0x60, 0x5b, 0x5b])" by simp
  from validJumps_are_JUMPDEST_outside_push [OF m] g m show ?thesis by simp
qed

section \<open>Post-run charging in \<open>runInterpreter\<close>\<close>

text \<open>
  C1. Whenever the interpreter run returns, \<open>runInterpreter\<close> returns a result that carries
  the run's \<open>exceptionError\<close> and, as \<open>gas\<close>, the gas the run left. If the error is not
  \<open>REVERT\<close>, \<open>gasUsed\<close> is the message's \<open>gasLimit\<close>; if it is \<open>REVERT\<close>, \<open>gasUsed\<close> is
  \<open>gasLimit\<close> minus the gas left; on any error the refund counter is the one from before the
  run. Without an error \<open>gasUsed\<close> is \<open>gasLimit\<close> minus the gas left and the refund counter
  is the one the run left.
\<close>

theorem runInterpreter_gas_and_refund:
  assumes "run message e = Inr (ir, e1)"
  shows "\<exists>result e2. runInterpreter run message e = Inr (result, e2)
           \<and> exceptionError result = ir_exceptionError ir
           \<and> gas result = Some (eei_gasLeft ir)
           \<and> (case ir_exceptionError ir of
                 None \<Rightarrow> gasUsed result = gasLimit message - eei_gasLeft ir \<and> refund e2 = refund e1
               | Some x \<Rightarrow>
                   (if error_of x = Some REVERT
                    then gasUsed result = gasLimit message - eei_gasLeft ir
                    else gasUsed result = gasLimit message)
                   \<and> refund e2 = refund e)"
  using assms by (cases "ir_exceptionError ir") (simp_all add: runInterpreter_def Let_def)

theorem runInterpreter_witness:
  "\<not> isl (runInterpreter ex_run_revert (ex_call ex_alice ex_bob 1 0 []) (ex_evm\<lparr>refund := 3\<rparr>))
   \<and> gasUsed (fst (projr (runInterpreter ex_run_revert (ex_call ex_alice ex_bob 1 0 [])
                      (ex_evm\<lparr>refund := 3\<rparr>)))) = 20900
   \<and> gas (fst (projr (runInterpreter ex_run_revert (ex_call ex_alice ex_bob 1 0 [])
                      (ex_evm\<lparr>refund := 3\<rparr>)))) = Some 100
   \<and> refund (snd (projr (runInterpreter ex_run_revert (ex_call ex_alice ex_bob 1 0 [])
                      (ex_evm\<lparr>refund := 3\<rparr>)))) = 3
   \<and> gasUsed (fst (projr (runInterpreter ex_run_oog (ex_call ex_alice ex_bob 1 0 [])
                      (ex_evm\<lparr>refund := 3\<rparr>)))) = 21000
   \<and> refund (snd (projr (runInterpreter ex_run_oog (ex_call ex_alice ex_bob 1 0 [])
                      (ex_evm\<lparr>refund := 3\<rparr>)))) = 3"
proof -
  let ?m = "ex_call ex_alice ex_bob 1 0 []"
  let ?e = "ex_evm\<lparr>refund := 3\<rparr>"
  have r: "ex_run_revert ?m ?e
           = Inr (\<lparr>ir_exceptionError = Some (VmError REVERT), eei_gasLeft = 100, eei_logs = [],
                   eei_returnValue = Some [], eei_selfdestruct = []\<rparr>, ?e)"
    by (simp add: ex_run_revert_def)
  have o: "ex_run_oog ?m ?e
           = Inr (\<lparr>ir_exceptionError = Some (VmError OUT_OF_GAS), eei_gasLeft = 40, eei_logs = [],
                   eei_returnValue = None, eei_selfdestruct = []\<rparr>, ?e\<lparr>refund := refund ?e + 7\<rparr>)"
    by (simp add: ex_run_oog_def)
  from runInterpreter_gas_and_refund [of ex_run_revert ?m ?e, OF r]
       runInterpreter_gas_and_refund [of ex_run_oog ?m ?e, OF o]
  show ?thesis
    by (auto simp add: ex_call_def ex_evm_def)
qed

section \<open>Value transfer, calls and creations: shared facts\<close>

lemma addToBalance_outcome:
  "(case addToBalance toAccount message st of
      Inl x \<Rightarrow> x = VmError VALUE_OVERFLOW \<and> 2 ^ 256 - 1 < balance toAccount + msg_value message
    | Inr s \<Rightarrow> balance toAccount + msg_value message \<le> 2 ^ 256 - 1)"
  by (simp add: addToBalance_def MAX_INTEGER_def Let_def)

lemma addToBalance_overflow:
  "MAX_INTEGER < balance toAccount + msg_value message \<Longrightarrow>
     addToBalance toAccount message st = Inl (VmError VALUE_OVERFLOW)"
  by (simp add: addToBalance_def Let_def)

lemma executeCall_early:
  assumes st1: "st1 = (if \<not> delegatecall message
                       then reduceSenderBalance (getAccount (state e) (caller message)) message (state e)
                       else state e)"
    and credit: "credit = (if \<not> delegatecall message
                           then addToBalance (getAccount st1 (toBuffer (to message))) message st1
                           else Inr st1)"
    and st2: "st2 = (case credit of Inl x \<Rightarrow> st1 | Inr s \<Rightarrow> s)"
    and early: "noCode (loadCode v message st2) \<or> isl credit"
  shows "executeCall v run message e =
           Inr (\<lparr>res_gasUsed = 0, createdAddress = None,
                 execResult = \<lparr>exceptionError = (case credit of Inl x \<Rightarrow> Some x | Inr s \<Rightarrow> None),
                               gas = None, gasUsed = 0, returnValue = [], logs = None,
                               selfdestruct = None, gasRefund = None\<rparr>\<rparr>,
                loadCode v message st2, e\<lparr>state := st2\<rparr>)"
  using early unfolding st2 credit st1
  by (cases "delegatecall message";
      cases "addToBalance (getAccount (reduceSenderBalance (getAccount (state e) (caller message))
               message (state e)) (toBuffer (to message))) message
               (reduceSenderBalance (getAccount (state e) (caller message)) message (state e))")
     (simp_all add: executeCall_def Let_def)


lemma ex_create_address:
  "generateAddress ex_vm (reduceSenderBalance a m (ex_create_state acc)) m' = ex_bob"
  by (simp add: generateAddress_def reduceSenderBalance_def toBuffer_BN_def putAccount_def
      getContractStorage_def ex_create_state_def ex_state_def ex_world_def ex_vm_def
      fromHexString_def Let_def)

lemma executeCreate_to_deploy:
  assumes st1: "st1 = reduceSenderBalance (getAccount (state e) (caller message)) message (state e)"
    and m2: "message2 = message\<lparr>code := Some (Bytecode (data message)), data := [],
                                 to := Some (generateAddress v st1 message)\<rparr>"
    and nocoll: "\<not> (0 < nonce (getAccount st1 (generateAddress v st1 message))
                     \<or> codeHash (getAccount st1 (generateAddress v st1 message)) \<noteq> KECCAK256_NULL)"
  shows "executeCreate v run message e = executeCreate_deploy v run message2 (e\<lparr>state := st1\<rparr>)"
  using nocoll unfolding m2 st1
  by (simp add: executeCreate_def Let_def toBuffer_def generateAddress_def)

lemma executeCreate_deploy_overflow:
  assumes "MAX_INTEGER < balance (getAccount (clearContractStorage (state e) (toBuffer (to message)))
                                   (toBuffer (to message))) + msg_value message"
  shows "executeCreate_deploy v run message e =
           (if noCode message then
              Inr (\<lparr>res_gasUsed = 0, createdAddress = to message,
                    execResult = \<lparr>exceptionError = Some (VmError VALUE_OVERFLOW), gas = None,
                                  gasUsed = 0, returnValue = [], logs = None,
                                  selfdestruct = None, gasRefund = None\<rparr>\<rparr>,
                   message, e\<lparr>state := clearContractStorage (state e) (toBuffer (to message))\<rparr>)
            else
              (case runInterpreter run message
                      (e\<lparr>state := clearContractStorage (state e) (toBuffer (to message))\<rparr>) of
                 Inl y \<Rightarrow> Inl y
               | Inr (result, e3) \<Rightarrow> Inr (executeCreate_finish v message result e3)))"
  using assms
  by (cases "gteHardfork v ''spuriousDragon''")
     (simp_all add: executeCreate_deploy_def Let_def addToBalance_def)

lemma executeCreate_finish_createdAddress:
  "executeCreate_finish v message result e = (r, m', e') \<Longrightarrow> createdAddress r = to message"
  by (auto simp add: executeCreate_finish_def Let_def)

lemma executeCreate_deploy_createdAddress:
  "executeCreate_deploy v run message e = Inr (r, m', e') \<Longrightarrow> createdAddress r = to message"
  by (auto simp add: executeCreate_deploy_def Let_def dest: executeCreate_finish_createdAddress
      split: if_splits sum.splits)

lemma generateAddress_reads_storage_only:
  "generateAddress v (reduceSenderBalance a m st) m' = generateAddress v st m''"
  by (simp add: generateAddress_def reduceSenderBalance_def toBuffer_BN_def putAccount_def getContractStorage_def
      Let_def)

lemma executeCreate_createdAddress:
  "executeCreate v run message e = Inr (r, m', e') \<Longrightarrow>
     createdAddress r = Some (generateAddress v (state e) message)"
  by (auto simp add: executeCreate_def Let_def generateAddress_reads_storage_only [of v _ _ _ _ message]
      dest!: executeCreate_deploy_createdAddress split: if_splits)

section \<open>The checkpoint stack through one message\<close>

lemma checkpoints_putAccount [simp]: "checkpoints (putAccount st a acc) = checkpoints st"
  by (simp add: putAccount_def)

lemma checkpoints_putContractCode [simp]: "checkpoints (putContractCode st a c) = checkpoints st"
  by (simp add: putContractCode_def)

lemma checkpoints_putContractStorage [simp]:
  "checkpoints (putContractStorage st a k x) = checkpoints st"
  by (simp add: putContractStorage_def)

lemma checkpoints_clearContractStorage [simp]:
  "checkpoints (clearContractStorage st a) = checkpoints st"
  by (simp add: clearContractStorage_def)

lemma checkpoints_reduceSenderBalance [simp]:
  "checkpoints (reduceSenderBalance acc m st) = checkpoints st"
  by (simp add: reduceSenderBalance_def toBuffer_BN_def Let_def)






lemma checkpoints_executeCreate_finish:
  "executeCreate_finish v m r0 e = (r, m', e') \<Longrightarrow>
     checkpoints (state e') = checkpoints (state e) \<and> m' = m"
  by (auto simp add: executeCreate_finish_def Let_def split: if_splits)




lemma enterMessage_opens_checkpoint:
  "enterMessage v m e = (m1, isTarget, e1) \<Longrightarrow>
     checkpoints (state e1) = current (state e) # checkpoints (state e)
     \<and> m1 = (if depth m = 0 then toOvmMessage v m else m)
     \<and> refund e1 = refund e \<and> targetMessageResult e1 = targetMessageResult e
     \<and> accountMessageResult e1 = accountMessageResult e"
  by (auto simp add: enterMessage_def Let_def checkpoint_def split: if_splits)



lemma settleMessage_state:
  "settleMessage isTarget d e = (r, e') \<Longrightarrow>
     state e' = (if exceptionError (execResult d) \<noteq> None then revert (state e) else commit (state e))
     \<and> exceptionError (execResult r) = exceptionError (execResult d)
     \<and> returnValue (execResult r) = returnValue (execResult d)
     \<and> gasUsed (execResult r) = gasUsed (execResult d)
     \<and> res_gasUsed r = res_gasUsed d
     \<and> createdAddress r = createdAddress d
     \<and> (exceptionError (execResult d) \<noteq> None \<longrightarrow> logs (execResult r) = Some [])
     \<and> (exceptionError (execResult d) = None \<longrightarrow> logs (execResult r) = logs (execResult d))
     \<and> accountMessageResult e' = accountMessageResult e
     \<and> targetMessageResult e' = (if isTarget then Some r else targetMessageResult e)"
  by (auto simp add: settleMessage_def Let_def split: if_splits)

lemma reconcileOvm_state:
  "reconcileOvm v isTarget r e = (r', e') \<Longrightarrow>
     state e' = state e \<and> accountMessageResult e' = accountMessageResult e
     \<and> res_gasUsed r' = res_gasUsed r \<and> gasUsed (execResult r') = gasUsed (execResult r)
     \<and> (logs (execResult r) = Some [] \<longrightarrow> logs (execResult r') = Some [])"
  by (auto simp add: reconcileOvm_def Let_def split: option.splits if_splits)


lemma executeMessage_phases:
  assumes "executeMessage v run m e = Inr (r, e')"
  obtains m1 isTarget e1 d m2 e2 r1 e3 r2 e4 where
    "enterMessage v m e = (m1, isTarget, e1)"
    "dispatchMessage v run m1 e1 = Inr (d, m2, e2)"
    "settleMessage isTarget d e2 = (r1, e3)"
    "(if depth m2 = 0 then reconcileOvm v isTarget r1 e3 else (r1, e3)) = (r2, e4)"
    "recordAccountMessage v m2 r2 e4 = Inr e'"
    "r = r2"
  using assms
  by (auto simp add: executeMessage_def split: prod.splits sum.splits)

lemma executeCall_depth:
  "executeCall v run m e = Inr (r, m', e') \<Longrightarrow> depth m' = depth m"
proof -
  assume a: "executeCall v run m e = Inr (r, m', e')"
  have "\<And>st. depth (loadCode v m st) = depth m"
    by (simp add: loadCode_def split: option.splits)
  moreover from a have "\<exists>st. m' = loadCode v m st"
    by (auto simp add: executeCall_def Let_def split: if_splits sum.splits)
  ultimately show ?thesis by auto
qed

lemma executeCreate_deploy_message:
  "executeCreate_deploy v run m e = Inr (r, m', e') \<Longrightarrow> m' = m"
  by (auto simp add: executeCreate_deploy_def Let_def split: if_splits sum.splits
      dest!: checkpoints_executeCreate_finish)

lemma executeCreate_depth:
  "executeCreate v run m e = Inr (r, m', e') \<Longrightarrow> depth m' = depth m"
  by (auto simp add: executeCreate_def Let_def split: if_splits
      dest!: executeCreate_deploy_message)

lemma dispatchMessage_depth:
  "dispatchMessage v run m e = Inr (r, m', e') \<Longrightarrow> depth m' = depth m"
  by (auto simp add: dispatchMessage_def split: option.splits if_splits sum.splits
      dest!: executeCall_depth executeCreate_depth)

lemma reconcileOvm_result:
  assumes "reconcileOvm v isTarget r e = (r', e')"
    and "isTarget \<longrightarrow> targetMessageResult e = Some r"
    and "targetMessageResult e' = Some tr"
  shows "exceptionError (execResult r') =
           (if (case accountMessageResult e' of
                  None \<Rightarrow> False
                | Some ar \<Rightarrow> take 32 (returnValue (execResult ar)) = replicate 32 0x00)
               \<and> exceptionError (execResult tr) = None
            then Some (VmError REVERT) else exceptionError (execResult tr))
         \<and> createdAddress r' = createdAddress tr
         \<and> returnValue (execResult r') =
             (if exceptionError (execResult tr) \<noteq> None \<and> 160 \<le> length (returnValue (execResult tr))
              then drop 160 (returnValue (execResult tr)) else returnValue (execResult tr))"
proof (cases "targetMessageResult e")
  case None
  with assms(1) have "e' = e" by (simp add: reconcileOvm_def)
  with None assms(3) show ?thesis by simp
next
  case (Some t0)
  show ?thesis
  proof (cases isTarget)
    case True
    with assms(2) Some have t0: "t0 = r" by simp
    from assms(1) assms(3) Some True t0 show ?thesis
      by (cases "logs (execResult r)") (auto simp add: reconcileOvm_def Let_def)
  next
    case False
    from assms(1) assms(3) Some False show ?thesis
      by (cases "logs (execResult r)") (auto simp add: reconcileOvm_def Let_def)
  qed
qed

lemma reconcileOvm_no_target:
  "targetMessageResult e = None \<Longrightarrow>
     reconcileOvm v isTarget r e =
       (r\<lparr>execResult := (execResult r)\<lparr>exceptionError := Some (VmError OVM_ERROR)\<rparr>\<rparr>, e)"
  by (simp add: reconcileOvm_def)


section \<open>Running the executor on the concrete configuration\<close>

lemmas ex_defs = ex_vm_def ex_evm_def ex_state_def ex_world_def ex_account_def ex_call_def
  ex_run_revert_def ex_run_zero_def ex_run_revert32_def ex_run_ok_def ex_EM_def ex_SM_def ex_alice_def ex_bob_def ex_slot_def

lemmas evm_defs = executeMessage_def enterMessage_def dispatchMessage_def settleMessage_def
  reconcileOvm_def recordAccountMessage_def resolveTarget_def isStateManager_def
  executeCall_def runInterpreter_def loadCode_def noCode_def addToBalance_def
  reduceSenderBalance_def toBuffer_BN_def toBuffer_def MAX_INTEGER_def toHexString_def fromHexString_def

lemmas state_defs = getAccount_def putAccount_def getContractCode_def putContractCode_def
  getContractStorage_def putContractStorage_def checkpoint_def commit_def revert_def







lemma ex_entry_zero_result:
  "\<not> isl (executeMessage ex_vm (ex_run_entry ex_run_zero) (ex_call ex_alice ex_bob 0 0 []) ex_evm)
   \<and> (\<exists>tr. targetMessageResult (snd (projr
           (executeMessage ex_vm (ex_run_entry ex_run_zero) (ex_call ex_alice ex_bob 0 0 []) ex_evm)))
           = Some tr
         \<and> exceptionError (execResult tr) = None
         \<and> returnValue (execResult tr) = replicate 32 0x00)
   \<and> (\<exists>ar. accountMessageResult (snd (projr
           (executeMessage ex_vm (ex_run_entry ex_run_zero) (ex_call ex_alice ex_bob 0 0 []) ex_evm)))
           = Some ar
         \<and> returnValue (execResult ar) = replicate 32 0x00)"
  by (simp add: ex_run_entry_def evm_defs state_defs ex_defs Let_def)


lemma ex_entry_revert32_result:
  "\<not> isl (executeMessage ex_vm (ex_run_entry ex_run_revert32) (ex_call ex_alice ex_bob 0 0 []) ex_evm)
   \<and> exceptionError (execResult (the (targetMessageResult (snd (projr
         (executeMessage ex_vm (ex_run_entry ex_run_revert32) (ex_call ex_alice ex_bob 0 0 []) ex_evm))))))
       = Some (VmError REVERT)
   \<and> returnValue (execResult (the (targetMessageResult (snd (projr
         (executeMessage ex_vm (ex_run_entry ex_run_revert32) (ex_call ex_alice ex_bob 0 0 []) ex_evm))))))
       = replicate 32 0x01
   \<and> exceptionError (execResult (fst (projr
         (executeMessage ex_vm (ex_run_entry ex_run_revert32) (ex_call ex_alice ex_bob 0 0 []) ex_evm))))
       = Some (VmError REVERT)
   \<and> returnValue (execResult (fst (projr
         (executeMessage ex_vm (ex_run_entry ex_run_revert32) (ex_call ex_alice ex_bob 0 0 []) ex_evm))))
       = replicate 32 0x01"
  by (simp add: ex_run_entry_def evm_defs state_defs ex_defs Let_def)

section \<open>The checkpoint of \<open>executeMessage\<close>\<close>




section \<open>Calls to the StateManager pseudo-contract\<close>

lemma dispatchMessage_StateManager:
  assumes "to m = Some toAddr"
    and "isStateManager (resolveTarget v (state e) toAddr)"
    and "handleCall v m (state e) = Inr (rv, st1)"
  shows "dispatchMessage v run m e =
           Inr (\<lparr>res_gasUsed = 0, createdAddress = None,
                 execResult = \<lparr>exceptionError = None, gas = None, gasUsed = 0, returnValue = rv,
                               logs = None, selfdestruct = None, gasRefund = None\<rparr>\<rparr>,
                m, e\<lparr>state := st1\<rparr>)"
  using assms by (simp add: dispatchMessage_def)

text \<open>
  C3. Let the message as dispatched (rewritten at depth 0) have a \<open>to\<close> address that
  resolves to the contract named \<open>OVM_StateManager\<close>, let \<open>handleCall\<close> return a byte
  sequence for it, and let the message be at depth 1 or deeper, or no target result be
  latched at entry. Then \<open>executeMessage\<close> returns the same result for every interpreter
  (the interpreter is not run on the message), \<open>gasUsed\<close> is zero in the result and in its
  \<open>execResult\<close>, and the \<open>returnValue\<close> is exactly the byte sequence \<open>handleCall\<close> returned.
\<close>

theorem executeMessage_StateManager_bypass:
  assumes enter: "enterMessage v message e = (message1, isTarget, e1)"
    and toaddr: "to message1 = Some toAddr"
    and sm: "isStateManager (resolveTarget v (state e1) toAddr)"
    and hc: "handleCall v message1 (state e1) = Inr (rv, st1)"
    and fresh: "depth message1 \<noteq> 0 \<or> targetMessageResult e = None"
  shows "\<exists>result e'. (\<forall>run. executeMessage v run message e = Inr (result, e'))
           \<and> res_gasUsed result = 0 \<and> gasUsed (execResult result) = 0
           \<and> returnValue (execResult result) = rv"
proof -
  let ?d = "\<lparr>res_gasUsed = 0, createdAddress = None,
             execResult = \<lparr>exceptionError = None, gas = None, gasUsed = 0, returnValue = rv,
                           logs = None, selfdestruct = None, gasRefund = None\<rparr>\<rparr>"
  let ?e2 = "e1\<lparr>state := st1\<rparr>"
  obtain r1 e3 where settle: "settleMessage isTarget ?d ?e2 = (r1, e3)"
    by (cases "settleMessage isTarget ?d ?e2") simp
  obtain r2 e4 where
    recon: "(if depth message1 = 0 then reconcileOvm v isTarget r1 e3 else (r1, e3)) = (r2, e4)"
    by (cases "if depth message1 = 0 then reconcileOvm v isTarget r1 e3 else (r1, e3)") simp
  have "\<exists>e5. recordAccountMessage v message1 r2 e4 = Inr e5"
    using toaddr by (simp add: recordAccountMessage_def)
  then obtain e5 where rec: "recordAccountMessage v message1 r2 e4 = Inr e5" ..
  have all: "\<forall>run. executeMessage v run message e = Inr (r2, e5)"
    using enter dispatchMessage_StateManager [OF toaddr sm hc] settle recon rec
    by (simp add: executeMessage_def)
  from settleMessage_state [OF settle]
  have r1: "returnValue (execResult r1) = rv" "gasUsed (execResult r1) = 0" "res_gasUsed r1 = 0"
    "exceptionError (execResult r1) = None"
    and t3: "targetMessageResult e3 = (if isTarget then Some r1 else targetMessageResult ?e2)"
    by simp_all
  from enterMessage_opens_checkpoint [OF enter]
  have t1: "targetMessageResult ?e2 = targetMessageResult e" by simp
  have r2: "returnValue (execResult r2) = rv \<and> gasUsed (execResult r2) = 0 \<and> res_gasUsed r2 = 0"
  proof (cases "depth message1 = 0")
    case False
    with recon r1 show ?thesis by simp
  next
    case True
    with recon have rc: "reconcileOvm v isTarget r1 e3 = (r2, e4)" by simp
    from True fresh have none: "targetMessageResult e = None" by simp
    from reconcileOvm_state [OF rc] r1
    have g: "gasUsed (execResult r2) = 0 \<and> res_gasUsed r2 = 0" by simp
    show ?thesis
    proof (cases isTarget)
      case True
      with t3 have t: "targetMessageResult e3 = Some r1" by simp
      from rc t True r1 show ?thesis
        by (cases "logs (execResult r1)") (auto simp add: reconcileOvm_def Let_def)
    next
      case False
      with t3 t1 none have "targetMessageResult e3 = None" by simp
      from reconcileOvm_no_target [OF this, of v isTarget r1] rc r1 show ?thesis by auto
    qed
  qed
  with all show ?thesis by blast
qed


lemma ex_getStorage_call:
  "handleCall ex_vm (ex_call ex_EM ex_SM 2 0 (0x02 # ex_bob @ ex_slot)) (checkpoint ex_state)
     = Inr (replicate 32 0x00, checkpoint ex_state)"
proof -
  have d: "ex_decode (0x02 # ex_bob @ ex_slot) = Some (GetStorage ex_bob ex_slot)"
    by (simp add: ex_decode_def ex_bob_def)
  have g: "getStorage ex_bob ex_slot (checkpoint ex_state) = [replicate 32 0x00]"
    by (simp add: getStorage_def getStorageView_def getContractStorage_def checkpoint_def
        ex_state_def ex_world_def NULL_BYTES32_def toHexString_def Let_def)
  show ?thesis
    by (simp add: handleCall_def ex_call_def ex_vm_def d g fromHexString_def)
qed

theorem executeMessage_StateManager_bypass_witness:
  "\<not> isl (executeMessage ex_vm ex_run_ok (ex_call ex_EM ex_SM 2 0 (0x02 # ex_bob @ ex_slot)) ex_evm)
   \<and> res_gasUsed (fst (projr
         (executeMessage ex_vm ex_run_ok (ex_call ex_EM ex_SM 2 0 (0x02 # ex_bob @ ex_slot)) ex_evm)))
       = 0
   \<and> returnValue (execResult (fst (projr
         (executeMessage ex_vm ex_run_ok (ex_call ex_EM ex_SM 2 0 (0x02 # ex_bob @ ex_slot)) ex_evm))))
       = replicate 32 0x00"
proof -
  let ?m = "ex_call ex_EM ex_SM 2 0 (0x02 # ex_bob @ ex_slot)"
  have enter: "enterMessage ex_vm ?m ex_evm = (?m, False, ex_evm\<lparr>state := checkpoint ex_state\<rparr>)"
    by (simp add: enterMessage_def ex_call_def ex_vm_def ex_evm_def Let_def)
  have toaddr: "to ?m = Some ex_SM" by (simp add: ex_call_def)
  have sm: "isStateManager (resolveTarget ex_vm (state (ex_evm\<lparr>state := checkpoint ex_state\<rparr>)) ex_SM)"
    by (simp add: isStateManager_def resolveTarget_def getContractCode_def checkpoint_def
        toHexString_def ex_vm_def ex_state_def ex_world_def ex_SM_def ex_EM_def ex_bob_def Let_def)
  have hc: "handleCall ex_vm ?m (state (ex_evm\<lparr>state := checkpoint ex_state\<rparr>))
              = Inr (replicate 32 0x00, checkpoint ex_state)"
    using ex_getStorage_call by simp
  have fresh: "depth ?m \<noteq> 0 \<or> targetMessageResult ex_evm = None"
    by (simp add: ex_call_def)
  from executeMessage_StateManager_bypass [OF enter toaddr sm hc fresh]
  show ?thesis by auto
qed

section \<open>Address generation\<close>

lemma bufferValue_snoc:
  "bufferValue (xs @ [x]) = 256 * bufferValue xs + unat x"
  by (simp add: bufferValue_def)

lemma bufferValue_numberBuffer:
  "bufferValue (numberBuffer n) = n"
proof (induction n rule: numberBuffer.induct)
  case (1 n)
  show ?case
  proof (cases "n = 0")
    case True
    then show ?thesis by (simp add: bufferValue_def numberBuffer.simps [of 0])
  next
    case False
    have u: "unat (of_nat (n mod 256) :: byte) = n mod 256"
      by (simp add: unat_of_nat)
    have "numberBuffer n = numberBuffer (n div 256) @ [of_nat (n mod 256)]"
      using False by (simp add: numberBuffer.simps [of n])
    then have "bufferValue (numberBuffer n) = 256 * bufferValue (numberBuffer (n div 256)) + n mod 256"
      using u by (simp only: bufferValue_snoc)
    with 1 [OF False] show ?thesis by simp
  qed
qed

lemma bufferValue_toArrayLike:
  "bufferValue (toArrayLike n) = n"
  by (simp add: toArrayLike_def bufferValue_numberBuffer) (simp add: bufferValue_def)

lemma toArrayLike_nonempty:
  "toArrayLike n \<noteq> []"
proof (cases "n = 0")
  case True
  then show ?thesis by (simp add: toArrayLike_def)
next
  case False
  then have "numberBuffer n = numberBuffer (n div 256) @ [of_nat (n mod 256)]"
    by (simp add: numberBuffer.simps [of n])
  with False show ?thesis by (simp add: toArrayLike_def)
qed

lemma toArrayLike_small:
  "n < 256 \<Longrightarrow> toArrayLike n = [of_nat n]"
  by (simp add: toArrayLike_def numberBuffer.simps [of n] numberBuffer.simps [of 0])

lemma nonce_magnitude:
  "nat \<bar>int n - 1\<bar> = (if n = 0 then 1 else n - 1)"
  by (cases n) simp_all

text \<open>
  C5 (as amended). In evm.ts every creation message takes its address from slot
  \<open>0x00..0f\<close> of the Execution Manager's storage, whatever its salt, its caller and the
  accounts: the \<open>createdAddress\<close> of every result \<open>_executeCreate\<close> returns is the address
  that slot held when \<open>_executeCreate\<close> was entered. In the older variant (source part 003)
  the OVM path (\<open>_isOvmCall\<close> set) reads slot \<open>0x00..05\<close>; the standard path derives the
  address by \<open>generateAddress2(caller, salt, code)\<close> when the message carries a salt, and
  otherwise by \<open>generateAddress(caller, b)\<close> where \<open>b\<close> is a Buffer of at least one byte
  that denotes \<open>nonce - 1\<close> for a caller of nonce 1 or more, and 1 for a caller of nonce 0.
\<close>

theorem generateAddress_paths:
  "(executeCreate v run message e = Inr (r, m', e') \<longrightarrow>
        createdAddress r =
          Some (fromHexString (toHexAddress v
            (getContractStorage (state e) (OVM_ExecutionManager_address v)
               (replicate 31 0x00 @ [0x0f])))))
   \<and> generateAddress_part003 v keccak256 rlp True st message =
        fromHexString (toHexAddress v
          (getContractStorage st (OVM_ExecutionManager_address v) (replicate 31 0x00 @ [0x05])))
   \<and> (salt message = Some s \<longrightarrow>
        generateAddress_part003 v keccak256 rlp False st message =
          drop 12 (keccak256 ([0xff] @ caller message @ s @ keccak256 (code_bytes (code message)))))
   \<and> (salt message = None \<and> b = toArrayLike (if nonce (getAccount st (caller message)) = 0 then 1
                                                 else nonce (getAccount st (caller message)) - 1) \<longrightarrow>
        generateAddress_part003 v keccak256 rlp False st message =
          drop 12 (keccak256 (rlp (caller message) b))
        \<and> b \<noteq> []
        \<and> bufferValue b = (if nonce (getAccount st (caller message)) = 0 then 1
                            else nonce (getAccount st (caller message)) - 1))"
proof -
  have a: "executeCreate v run message e = Inr (r, m', e') \<longrightarrow>
        createdAddress r =
          Some (fromHexString (toHexAddress v
            (getContractStorage (state e) (OVM_ExecutionManager_address v)
               (replicate 31 0x00 @ [0x0f]))))"
    using executeCreate_createdAddress [of v run message e r m' e']
    by (simp add: generateAddress_def)
  have b: "generateAddress_part003 v keccak256 rlp True st message =
        fromHexString (toHexAddress v
          (getContractStorage st (OVM_ExecutionManager_address v) (replicate 31 0x00 @ [0x05])))"
    by (simp add: generateAddress_part003_def)
  have c: "salt message = Some s \<longrightarrow>
        generateAddress_part003 v keccak256 rlp False st message =
          drop 12 (keccak256 ([0xff] @ caller message @ s @ keccak256 (code_bytes (code message))))"
    by (simp add: generateAddress_part003_def util_generateAddress2_def)
  have d: "salt message = None \<and> b = toArrayLike (if nonce (getAccount st (caller message)) = 0 then 1
                                                 else nonce (getAccount st (caller message)) - 1) \<longrightarrow>
        generateAddress_part003 v keccak256 rlp False st message =
          drop 12 (keccak256 (rlp (caller message) b))
        \<and> b \<noteq> []
        \<and> bufferValue b = (if nonce (getAccount st (caller message)) = 0 then 1
                            else nonce (getAccount st (caller message)) - 1)"
  proof
    let ?n = "nonce (getAccount st (caller message))"
    assume "salt message = None \<and> b = toArrayLike (if ?n = 0 then 1 else ?n - 1)"
    then have s: "salt message = None" and bd: "b = toArrayLike (nat \<bar>int ?n - 1\<bar>)"
      by (simp_all only: nonce_magnitude)
    have "generateAddress_part003 v keccak256 rlp False st message =
            drop 12 (keccak256 (rlp (caller message) b))"
      using s by (simp add: generateAddress_part003_def util_generateAddress_def Let_def bd)
    moreover have "b \<noteq> []" unfolding bd by (rule toArrayLike_nonempty)
    moreover have "bufferValue b = (if ?n = 0 then 1 else ?n - 1)"
      unfolding bd by (simp only: bufferValue_toArrayLike nonce_magnitude)
    ultimately show "generateAddress_part003 v keccak256 rlp False st message =
          drop 12 (keccak256 (rlp (caller message) b))
        \<and> b \<noteq> []
        \<and> bufferValue b = (if ?n = 0 then 1 else ?n - 1)"
      by blast
  qed
  from a b c d show ?thesis by blast
qed

theorem generateAddress_paths_witness:
  "generateAddress_part003 ex_vm ex_keccak256 ex_rlp False (ex_nonce_state 3)
       (ex_create ex_alice 1 0 [0x00])
     = drop 12 (ex_keccak256 (ex_alice @ [0x02]))
   \<and> generateAddress_part003 ex_vm ex_keccak256 ex_rlp False (ex_nonce_state 0)
       (ex_create ex_alice 1 0 [0x00])
     = drop 12 (ex_keccak256 (ex_alice @ [0x01]))
   \<and> drop 12 (ex_keccak256 (ex_alice @ [0x02])) \<noteq> drop 12 (ex_keccak256 (ex_alice @ [0x01]))
   \<and> generateAddress_part003 ex_vm ex_keccak256 ex_rlp False (ex_nonce_state 3)
       ((ex_create ex_alice 1 0 [])\<lparr>salt := Some [0x05], code := Some (Bytecode [0x60, 0x00])\<rparr>)
     = drop 12 (ex_keccak256 ([0xff] @ ex_alice @ [0x05] @ ex_keccak256 [0x60, 0x00]))
   \<and> createdAddress (fst (projr (executeCreate ex_vm ex_run_ok
         ((ex_create ex_alice 2 0 [0x00])\<lparr>salt := Some [0x05]\<rparr>)
         (ex_evm\<lparr>state := ex_create_state (ex_account\<lparr>nonce := 1\<rparr>)\<rparr>)))) = Some ex_bob"
proof -
  let ?ms = "(ex_create ex_alice 1 0 [])\<lparr>salt := Some [0x05], code := Some (Bytecode [0x60, 0x00])\<rparr>"
  let ?m = "ex_create ex_alice 1 0 [0x00]"
  let ?c = "(ex_create ex_alice 2 0 [0x00])\<lparr>salt := Some [0x05]\<rparr>"
  let ?e = "ex_evm\<lparr>state := ex_create_state (ex_account\<lparr>nonce := 1\<rparr>)\<rparr>"
  have s1: "salt ?ms = Some [0x05]" by (simp add: ex_create_def)
  have s2: "salt ?m = None" by (simp add: ex_create_def)
  have n3: "nonce (getAccount (ex_nonce_state 3) (caller ?m)) = 3"
    by (simp add: getAccount_def ex_nonce_state_def ex_create_def)
  have n0: "nonce (getAccount (ex_nonce_state 0) (caller ?m)) = 0"
    by (simp add: getAccount_def ex_nonce_state_def ex_create_def)
  have t2: "toArrayLike 2 = [0x02]" and t1: "toArrayLike 1 = [0x01]"
    by (simp_all add: toArrayLike_small)
  have slot: "fromHexString (toHexAddress ex_vm
            (getContractStorage (state ?e) (OVM_ExecutionManager_address ex_vm)
               (replicate 31 0x00 @ [0x0f]))) = ex_bob"
    by (simp add: getContractStorage_def ex_create_state_def ex_state_def ex_world_def
        ex_vm_def ex_evm_def fromHexString_def)
  obtain r m' e' where ex: "executeCreate ex_vm ex_run_ok ?c ?e = Inr (r, m', e')"
    by (simp add: executeCreate_def Let_def generateAddress_def getContractStorage_def
        reduceSenderBalance_def toBuffer_BN_def putAccount_def getAccount_def toBuffer_def
        fromHexString_def ex_create_state_def ex_state_def ex_world_def ex_vm_def ex_evm_def
        ex_create_def ex_account_def ex_alice_def ex_bob_def)
  from generateAddress_paths [of ex_vm ex_run_ok ?m ?e r m' e' ex_keccak256 ex_rlp
         "ex_nonce_state 3" "[]" "[0x02]"] s2 n3 t2
  have a: "generateAddress_part003 ex_vm ex_keccak256 ex_rlp False (ex_nonce_state 3) ?m
     = drop 12 (ex_keccak256 (ex_alice @ [0x02]))"
    by (simp add: ex_rlp_def ex_create_def)
  from generateAddress_paths [of ex_vm ex_run_ok ?m ?e r m' e' ex_keccak256 ex_rlp
         "ex_nonce_state 0" "[]" "[0x01]"] s2 n0 t1
  have b: "generateAddress_part003 ex_vm ex_keccak256 ex_rlp False (ex_nonce_state 0) ?m
     = drop 12 (ex_keccak256 (ex_alice @ [0x01]))"
    by (simp add: ex_rlp_def ex_create_def)
  have ne: "drop 12 (ex_keccak256 (ex_alice @ [0x02])) \<noteq> drop 12 (ex_keccak256 (ex_alice @ [0x01]))"
    by (simp add: ex_keccak256_def ex_alice_def)
  from generateAddress_paths [of ex_vm ex_run_ok ?ms ?e r m' e' ex_keccak256 ex_rlp
         "ex_nonce_state 3" "[0x05]" "[]"] s1
  have c: "generateAddress_part003 ex_vm ex_keccak256 ex_rlp False (ex_nonce_state 3) ?ms
     = drop 12 (ex_keccak256 ([0xff] @ ex_alice @ [0x05] @ ex_keccak256 [0x60, 0x00]))"
    by (simp add: ex_create_def code_bytes_def)
  from generateAddress_paths [of ex_vm ex_run_ok ?c ?e r m' e' ex_keccak256 ex_rlp
         "ex_nonce_state 3" "[]" "[]"] ex slot
  have d: "createdAddress (fst (projr (executeCreate ex_vm ex_run_ok ?c ?e))) = Some ex_bob"
    by simp
  from a b ne c d show ?thesis by simp
qed

text \<open>
  The claim as stated (the OVM path reads slot \<open>0x00..0f\<close>, beside a standard path) fails
  on the variant that has a standard path: with the two slots naming different addresses,
  its OVM path returns the one of slot \<open>0x00..05\<close>. And its standard path does not hash
  the caller's nonce when that is 0: it hashes the byte \<open>01\<close>, as it does for a caller of
  nonce 2.
\<close>

theorem generateAddress_part003_slot_counterexample:
  "generateAddress_part003 ex_vm ex_keccak256 ex_rlp True ex_two_slot_state
       (ex_create ex_alice 1 0 [0x00]) = ex_alice
   \<and> fromHexString (toHexAddress ex_vm
        (getContractStorage ex_two_slot_state (OVM_ExecutionManager_address ex_vm)
           (replicate 31 0x00 @ [0x0f]))) = ex_bob
   \<and> ex_alice \<noteq> ex_bob
   \<and> generateAddress_part003 ex_vm ex_keccak256 ex_rlp False (ex_nonce_state 0)
         (ex_create ex_alice 1 0 [0x00])
       = generateAddress_part003 ex_vm ex_keccak256 ex_rlp False (ex_nonce_state 2)
           (ex_create ex_alice 1 0 [0x00])"
proof -
  have "toArrayLike (Suc 0) = [0x01]"
    using toArrayLike_small [of 1] by simp
  then show ?thesis
    by (simp add: generateAddress_part003_def getContractStorage_def ex_two_slot_state_def
        ex_nonce_state_def getAccount_def ex_create_def util_generateAddress_def Let_def
        ex_state_def ex_world_def ex_vm_def fromHexString_def ex_alice_def ex_bob_def)
qed

section \<open>Creation at an occupied address\<close>

text \<open>
  C6. When the account at the generated address has a nonce greater than zero or a code
  hash other than \<open>KECCAK256_NULL\<close>, \<open>_executeCreate\<close> returns \<open>CREATE_COLLISION\<close> with
  \<open>gasUsed\<close> equal to the message's \<open>gasLimit\<close>, in the result and in its \<open>execResult\<close>;
  the only state change is the sender's debit, and the result is the same for every
  interpreter: the init code is not run.
\<close>

theorem executeCreate_collision:
  assumes st1: "st1 = reduceSenderBalance (getAccount (state e) (caller message)) message (state e)"
    and addr: "addr = generateAddress v st1 message"
    and coll: "0 < nonce (getAccount st1 addr) \<or> codeHash (getAccount st1 addr) \<noteq> KECCAK256_NULL"
  shows "executeCreate v run message e =
           Inr (\<lparr>res_gasUsed = gasLimit message, createdAddress = Some addr,
                 execResult = \<lparr>exceptionError = Some (VmError CREATE_COLLISION), gas = None,
                               gasUsed = gasLimit message, returnValue = [], logs = None,
                               selfdestruct = None, gasRefund = None\<rparr>\<rparr>,
                message\<lparr>code := Some (Bytecode (data message)), data := [], to := Some addr\<rparr>,
                e\<lparr>state := st1\<rparr>)"
  using coll unfolding st1 addr
  by (simp add: executeCreate_def Let_def toBuffer_def generateAddress_def)

theorem executeCreate_collision_witness:
  "exceptionError (execResult (fst (projr (executeCreate ex_vm ex_run_ok (ex_create ex_alice 2 0 [0x00])
       (ex_evm\<lparr>state := ex_create_state (ex_account\<lparr>nonce := 1\<rparr>)\<rparr>))))) = Some (VmError CREATE_COLLISION)
   \<and> res_gasUsed (fst (projr (executeCreate ex_vm ex_run_ok (ex_create ex_alice 2 0 [0x00])
       (ex_evm\<lparr>state := ex_create_state (ex_account\<lparr>nonce := 1\<rparr>)\<rparr>)))) = 21000
   \<and> createdAddress (fst (projr (executeCreate ex_vm ex_run_ok (ex_create ex_alice 2 0 [0x00])
       (ex_evm\<lparr>state := ex_create_state (ex_account\<lparr>nonce := 1\<rparr>)\<rparr>)))) = Some ex_bob"
proof -
  let ?e = "ex_evm\<lparr>state := ex_create_state (ex_account\<lparr>nonce := 1\<rparr>)\<rparr>"
  let ?m = "ex_create ex_alice 2 0 [0x00]"
  let ?st1 = "reduceSenderBalance (getAccount (state ?e) (caller ?m)) ?m (state ?e)"
  have a: "generateAddress ex_vm ?st1 ?m = ex_bob"
    using ex_create_address by (simp add: ex_evm_def)
  have c: "0 < nonce (getAccount ?st1 ex_bob) \<or> codeHash (getAccount ?st1 ex_bob) \<noteq> KECCAK256_NULL"
    by (simp add: reduceSenderBalance_def toBuffer_BN_def getAccount_def putAccount_def ex_create_state_def
        ex_state_def ex_world_def ex_create_def ex_evm_def ex_account_def ex_alice_def ex_bob_def Let_def)
  from executeCreate_collision [of ?st1 ?e ?m ex_bob ex_vm ex_run_ok, OF refl a [symmetric] c]
  show ?thesis by (simp add: ex_create_def)
qed

section \<open>The early return of \<open>_executeCall\<close>\<close>

text \<open>
  C7. In \<open>_executeCall\<close>, if the resolved code is empty or the credit to the callee failed,
  the call returns at once: \<open>gasUsed\<close> is zero in the result and in its \<open>execResult\<close>, the
  \<open>returnValue\<close> is empty, and \<open>exceptionError\<close> is the credit failure if there was one and
  absent otherwise; the interpreter is not run. The credit (\<open>_addToBalance\<close>) fails exactly
  when the balance plus the message value exceeds \<open>2^256 - 1\<close>, and then with
  \<open>VALUE_OVERFLOW\<close>.
\<close>

theorem executeCall_early_return:
  assumes st1: "st1 = (if \<not> delegatecall message
                       then reduceSenderBalance (getAccount (state e) (caller message)) message (state e)
                       else state e)"
    and credit: "credit = (if \<not> delegatecall message
                           then addToBalance (getAccount st1 (toBuffer (to message))) message st1
                           else Inr st1)"
    and st2: "st2 = (case credit of Inl x \<Rightarrow> st1 | Inr s \<Rightarrow> s)"
    and early: "noCode (loadCode v message st2) \<or> isl credit"
  shows "executeCall v run message e =
           Inr (\<lparr>res_gasUsed = 0, createdAddress = None,
                 execResult = \<lparr>exceptionError = (case credit of Inl x \<Rightarrow> Some x | Inr s \<Rightarrow> None),
                               gas = None, gasUsed = 0, returnValue = [], logs = None,
                               selfdestruct = None, gasRefund = None\<rparr>\<rparr>,
                loadCode v message st2, e\<lparr>state := st2\<rparr>)
         \<and> (case addToBalance toAccount message st of
               Inl x \<Rightarrow> x = VmError VALUE_OVERFLOW
                         \<and> 2 ^ 256 - 1 < balance toAccount + msg_value message
             | Inr s \<Rightarrow> balance toAccount + msg_value message \<le> 2 ^ 256 - 1)"
  using executeCall_early [OF st1 credit st2 early] addToBalance_outcome [of toAccount message st]
  by simp

theorem executeCall_early_return_witness:
  "exceptionError (execResult (fst (projr (executeCall ex_vm ex_run_ok (ex_call ex_alice ex_bob 1 1 [])
       (ex_evm\<lparr>state := ex_rich_state\<rparr>))))) = Some (VmError VALUE_OVERFLOW)
   \<and> res_gasUsed (fst (projr (executeCall ex_vm ex_run_ok (ex_call ex_alice ex_bob 1 1 [])
       (ex_evm\<lparr>state := ex_rich_state\<rparr>)))) = 0
   \<and> returnValue (execResult (fst (projr (executeCall ex_vm ex_run_ok (ex_call ex_alice ex_bob 1 1 [])
       (ex_evm\<lparr>state := ex_rich_state\<rparr>))))) = []
   \<and> \<not> noCode (loadCode ex_vm (ex_call ex_alice ex_bob 1 1 []) ex_rich_state)
   \<and> balance (getAccount (state (snd (snd (projr (executeCall ex_vm ex_run_ok
         (ex_call ex_alice ex_bob 1 1 []) (ex_evm\<lparr>state := ex_rich_state\<rparr>)))))) ex_alice) = 99
   \<and> exceptionError (execResult (fst (projr (executeCall ex_vm ex_run_ok
         (ex_call ex_alice ex_alice 1 (2 ^ 255 + 50) []) ex_evm)))) = Some (VmError VALUE_OVERFLOW)
   \<and> balance (getAccount (state (snd (snd (projr (executeCall ex_vm ex_run_ok
         (ex_call ex_alice ex_alice 1 (2 ^ 255 + 50) []) ex_evm))))) ex_alice) = 2 ^ 255 - 50"
proof -
  let ?m = "ex_call ex_alice ex_bob 1 1 []"
  let ?e = "ex_evm\<lparr>state := ex_rich_state\<rparr>"
  let ?st1 = "if \<not> delegatecall ?m
              then reduceSenderBalance (getAccount (state ?e) (caller ?m)) ?m (state ?e) else state ?e"
  let ?credit = "if \<not> delegatecall ?m
                 then addToBalance (getAccount ?st1 (toBuffer (to ?m))) ?m ?st1 else Inr ?st1"
  have ov: "?credit = Inl (VmError VALUE_OVERFLOW)"
    by (simp add: ex_call_def ex_evm_def ex_rich_state_def ex_state_def ex_world_def
        ex_account_def reduceSenderBalance_def toBuffer_BN_def getAccount_def putAccount_def toBuffer_def
        addToBalance_def Let_def ex_alice_def ex_bob_def MAX_INTEGER_def)
  then have early: "noCode (loadCode ex_vm ?m (case ?credit of Inl x \<Rightarrow> ?st1 | Inr s \<Rightarrow> s))
                    \<or> isl ?credit"
    by simp
  have c: "\<not> noCode (loadCode ex_vm ?m ex_rich_state)"
    by (simp add: noCode_def loadCode_def ex_call_def ex_vm_def getContractCode_def
        ex_rich_state_def ex_state_def ex_world_def ex_bob_def ex_EM_def)
  have bal: "balance (getAccount ?st1 ex_alice) = 99"
    by (simp add: ex_call_def ex_evm_def ex_rich_state_def ex_state_def ex_world_def
        ex_account_def reduceSenderBalance_def toBuffer_BN_def getAccount_def putAccount_def
        Let_def ex_alice_def ex_bob_def)
  from executeCall_early_return [OF refl refl refl early, of ex_run_ok] ov c bal
  have first: "exceptionError (execResult (fst (projr (executeCall ex_vm ex_run_ok ?m ?e))))
        = Some (VmError VALUE_OVERFLOW)
      \<and> res_gasUsed (fst (projr (executeCall ex_vm ex_run_ok ?m ?e))) = 0
      \<and> returnValue (execResult (fst (projr (executeCall ex_vm ex_run_ok ?m ?e)))) = []
      \<and> \<not> noCode (loadCode ex_vm ?m ex_rich_state)
      \<and> balance (getAccount (state (snd (snd (projr (executeCall ex_vm ex_run_ok ?m ?e)))))
            ex_alice) = 99"
    by simp
  let ?s = "ex_call ex_alice ex_alice 1 (2 ^ 255 + 50) []"
  let ?t1 = "if \<not> delegatecall ?s
             then reduceSenderBalance (getAccount (state ex_evm) (caller ?s)) ?s (state ex_evm)
             else state ex_evm"
  let ?scredit = "if \<not> delegatecall ?s
                  then addToBalance (getAccount ?t1 (toBuffer (to ?s))) ?s ?t1 else Inr ?t1"
  have sbal: "balance (getAccount ?t1 ex_alice) = 2 ^ 255 - 50"
    by (simp add: ex_call_def ex_evm_def ex_state_def ex_world_def ex_account_def
        reduceSenderBalance_def toBuffer_BN_def getAccount_def putAccount_def Let_def)
  have sov: "?scredit = Inl (VmError VALUE_OVERFLOW)"
    by (simp add: ex_call_def ex_evm_def ex_state_def ex_world_def ex_account_def
        reduceSenderBalance_def toBuffer_BN_def getAccount_def putAccount_def toBuffer_def
        addToBalance_def Let_def MAX_INTEGER_def)
  then have searly: "noCode (loadCode ex_vm ?s (case ?scredit of Inl x \<Rightarrow> ?t1 | Inr s \<Rightarrow> s))
                     \<or> isl ?scredit"
    by simp
  from executeCall_early_return [OF refl refl refl searly, of ex_run_ok] sov sbal
  have second: "exceptionError (execResult (fst (projr (executeCall ex_vm ex_run_ok ?s ex_evm))))
        = Some (VmError VALUE_OVERFLOW)
      \<and> balance (getAccount (state (snd (snd (projr (executeCall ex_vm ex_run_ok ?s ex_evm)))))
            ex_alice) = 2 ^ 255 - 50"
    by simp
  from first second show ?thesis by simp
qed

section \<open>The OVM exit reconciliation at depth 0\<close>

text \<open>
  C8 (as amended). Let \<open>executeMessage\<close> return for a message at depth 0, whose rewritten
  form is at depth 0 too, with a target result latched. If the recorded depth-1
  account-message result has at least 32 return bytes, the first 32 all zero, and the
  target's result carries no \<open>exceptionError\<close>, the returned \<open>exceptionError\<close> is \<open>REVERT\<close>;
  otherwise it is the target's \<open>exceptionError\<close>. The returned \<open>createdAddress\<close> is the
  target's. The returned \<open>returnValue\<close> is the target's without its first 160 bytes when
  the target's result carries an \<open>exceptionError\<close>, of any kind, and has at least 160 return
  bytes; in every other case, a revert with fewer than 160 bytes of data among them, it is
  the target's \<open>returnValue\<close> whole.
\<close>

theorem executeMessage_depth0_reconciliation:
  assumes ret: "executeMessage v run message e = Inr (result, e')"
    and d0: "depth message = 0" "depth (toOvmMessage v message) = 0"
    and tgt: "targetMessageResult e' = Some tr"
  shows "exceptionError (execResult result) =
           (if (case accountMessageResult e' of
                  None \<Rightarrow> False
                | Some ar \<Rightarrow> take 32 (returnValue (execResult ar)) = replicate 32 0x00)
               \<and> exceptionError (execResult tr) = None
            then Some (VmError REVERT) else exceptionError (execResult tr))
         \<and> createdAddress result = createdAddress tr
         \<and> returnValue (execResult result) =
             (if exceptionError (execResult tr) \<noteq> None \<and> 160 \<le> length (returnValue (execResult tr))
              then drop 160 (returnValue (execResult tr)) else returnValue (execResult tr))"
proof -
  from ret obtain m1 isTarget e1 d m2 e2 r1 e3 r2 e4 where
    enter: "enterMessage v message e = (m1, isTarget, e1)"
    and disp: "dispatchMessage v run m1 e1 = Inr (d, m2, e2)"
    and settle: "settleMessage isTarget d e2 = (r1, e3)"
    and recon: "(if depth m2 = 0 then reconcileOvm v isTarget r1 e3 else (r1, e3)) = (r2, e4)"
    and rec: "recordAccountMessage v m2 r2 e4 = Inr e'"
    and r: "result = r2"
    by (rule executeMessage_phases)
  from enterMessage_opens_checkpoint [OF enter] d0 have "depth m1 = 0" by simp
  moreover from disp have "depth m2 = depth m1" by (rule dispatchMessage_depth)
  ultimately have dm2: "depth m2 = 0" by simp
  with recon have rc: "reconcileOvm v isTarget r1 e3 = (r2, e4)" by simp
  from rec dm2 have e': "e' = e4" by (simp add: recordAccountMessage_def)
  from settleMessage_state [OF settle]
  have t3: "isTarget \<longrightarrow> targetMessageResult e3 = Some r1" by simp
  from reconcileOvm_result [OF rc t3] tgt e' r show ?thesis by simp
qed


theorem executeMessage_depth0_reconciliation_witness:
  "\<not> isl (executeMessage ex_vm (ex_run_entry ex_run_zero) (ex_call ex_alice ex_bob 0 0 []) ex_evm)
   \<and> exceptionError (execResult (fst (projr
         (executeMessage ex_vm (ex_run_entry ex_run_zero) (ex_call ex_alice ex_bob 0 0 []) ex_evm))))
       = Some (VmError REVERT)
   \<and> returnValue (execResult (fst (projr
         (executeMessage ex_vm (ex_run_entry ex_run_zero) (ex_call ex_alice ex_bob 0 0 []) ex_evm))))
       = replicate 32 0x00"
proof -
  let ?m = "ex_call ex_alice ex_bob 0 0 []"
  let ?x = "executeMessage ex_vm (ex_run_entry ex_run_zero) ?m ex_evm"
  from ex_entry_zero_result obtain r e' tr ar where
    ret: "?x = Inr (r, e')"
    and tgt: "targetMessageResult e' = Some tr"
    and tr: "exceptionError (execResult tr) = None" "returnValue (execResult tr) = replicate 32 0x00"
    and ar: "accountMessageResult e' = Some ar" "returnValue (execResult ar) = replicate 32 0x00"
    by (cases ?x) auto
  have d0: "depth ?m = 0" "depth (toOvmMessage ex_vm ?m) = 0"
    by (simp_all add: ex_call_def ex_vm_def)
  from executeMessage_depth0_reconciliation [OF ret d0 tgt] tr ar ret
  show ?thesis by simp
qed

text \<open>
  The claim as stated (the first 160 bytes stripped on reverts) fails when the target
  reverts with less data: the entry message below returns \<open>REVERT\<close> from a target message
  that reverted with 32 bytes of data, and its \<open>returnValue\<close> is those 32 bytes, not what
  is left of them without the first 160.
\<close>

theorem executeMessage_depth0_short_revert_counterexample:
  "\<not> isl (executeMessage ex_vm (ex_run_entry ex_run_revert32) (ex_call ex_alice ex_bob 0 0 []) ex_evm)
   \<and> exceptionError (execResult (the (targetMessageResult (snd (projr
         (executeMessage ex_vm (ex_run_entry ex_run_revert32) (ex_call ex_alice ex_bob 0 0 []) ex_evm))))))
       = Some (VmError REVERT)
   \<and> returnValue (execResult (the (targetMessageResult (snd (projr
         (executeMessage ex_vm (ex_run_entry ex_run_revert32) (ex_call ex_alice ex_bob 0 0 []) ex_evm))))))
       = replicate 32 0x01
   \<and> exceptionError (execResult (fst (projr
         (executeMessage ex_vm (ex_run_entry ex_run_revert32) (ex_call ex_alice ex_bob 0 0 []) ex_evm))))
       = Some (VmError REVERT)
   \<and> returnValue (execResult (fst (projr
         (executeMessage ex_vm (ex_run_entry ex_run_revert32) (ex_call ex_alice ex_bob 0 0 []) ex_evm))))
       = replicate 32 0x01
   \<and> drop 160 (replicate 32 (0x01 :: byte)) = []
   \<and> replicate 32 (0x01 :: byte) \<noteq> []"
proof -
  have "drop 160 (replicate 32 (0x01 :: byte)) = []" "replicate 32 (0x01 :: byte) \<noteq> []"
    by simp_all
  with ex_entry_revert32_result show ?thesis by simp
qed

section \<open>Storage through the OVM state bridge\<close>

text \<open>
  C9. For the bridge over the state view of the spec: \<open>setStorage(addr, slot, value)\<close> with
  a 32-byte value followed by \<open>getStorage(addr, slot)\<close> returns exactly that value, called
  directly or through the bridge's handler table, and \<open>getStorage\<close> of a slot that holds
  nothing returns 32 zero bytes.
\<close>

theorem bridge_storage_roundtrip:
  "(length val = 32 \<longrightarrow> getStorage addr slot (setStorage addr slot val st) = [val])
   \<and> (contractStorage (current st) (fromHexString addr) (fromHexString slot) = None
        \<longrightarrow> getStorage addr slot st = [replicate 32 0])
   \<and> (length val = 32 \<longrightarrow>
        fst (handlers (GetStorage addr slot) (snd (handlers (SetStorage addr slot val) st)))
          = [val])"
  by (auto simp add: getStorage_def getStorageView_def setStorage_def getContractStorage_def
      putContractStorage_def fromHexString_def toHexString_def NULL_BYTES32_def Let_def)

theorem bridge_storage_witness:
  "getStorage ex_bob ex_slot (setStorage ex_bob ex_slot (replicate 32 0x33) ex_state)
     = [replicate 32 0x33]
   \<and> getStorage ex_bob ex_slot ex_state = [replicate 32 0x00]"
proof -
  have l: "length (replicate 32 (0x33 :: byte)) = 32" by simp
  have n: "contractStorage (current ex_state) (fromHexString ex_bob) (fromHexString ex_slot) = None"
    by (simp add: ex_state_def ex_world_def)
  from bridge_storage_roundtrip [of "replicate 32 0x33" ex_bob ex_slot ex_state] l n
  show ?thesis by blast
qed

section \<open>The credit error in \<open>_executeCreate\<close> and in \<open>_executeCall\<close>\<close>

text \<open>
  C10. In \<open>_executeCreate\<close>, when the address is free and crediting the value overflows:
  with empty init code the result carries \<open>VALUE_OVERFLOW\<close> (zero gas used); with non-empty
  init code the interpreter runs on the state without the credit and the result is what
  lines 410--449 make of that run, in which the credit error does not occur. In
  \<open>_executeCall\<close> the same overflow is returned as \<open>exceptionError\<close> whatever the code, and
  the interpreter is not run.
\<close>

theorem executeCreate_credit_error_only_for_empty_code:
  assumes st1: "st1 = reduceSenderBalance (getAccount (state e) (caller message)) message (state e)"
    and addr: "addr = generateAddress v st1 message"
    and m2: "message2 = message\<lparr>code := Some (Bytecode (data message)), data := [],
                                 to := Some addr\<rparr>"
    and nocoll: "\<not> (0 < nonce (getAccount st1 addr)
                     \<or> codeHash (getAccount st1 addr) \<noteq> KECCAK256_NULL)"
    and st2: "st2 = clearContractStorage st1 addr"
    and overflow: "MAX_INTEGER < balance (getAccount st2 addr) + msg_value message"
    and cst: "cst = reduceSenderBalance (getAccount (state ce) (caller cmessage)) cmessage (state ce)"
    and call_overflow: "\<not> delegatecall cmessage"
       "MAX_INTEGER < balance (getAccount cst (toBuffer (to cmessage))) + msg_value cmessage"
  shows "(if data message = []
          then executeCreate v run message e =
                 Inr (\<lparr>res_gasUsed = 0, createdAddress = Some addr,
                       execResult = \<lparr>exceptionError = Some (VmError VALUE_OVERFLOW), gas = None,
                                     gasUsed = 0, returnValue = [], logs = None,
                                     selfdestruct = None, gasRefund = None\<rparr>\<rparr>,
                      message2, e\<lparr>state := st2\<rparr>)
          else executeCreate v run message e =
                 (case runInterpreter run message2 (e\<lparr>state := st2\<rparr>) of
                    Inl y \<Rightarrow> Inl y
                  | Inr (result, e3) \<Rightarrow> Inr (executeCreate_finish v message2 result e3)))
         \<and> executeCall v run cmessage ce =
              Inr (\<lparr>res_gasUsed = 0, createdAddress = None,
                    execResult = \<lparr>exceptionError = Some (VmError VALUE_OVERFLOW), gas = None,
                                  gasUsed = 0, returnValue = [], logs = None,
                                  selfdestruct = None, gasRefund = None\<rparr>\<rparr>,
                   loadCode v cmessage cst, ce\<lparr>state := cst\<rparr>)"
proof -
  from st1 addr m2 nocoll
  have d: "executeCreate v run message e = executeCreate_deploy v run message2 (e\<lparr>state := st1\<rparr>)"
    by (intro executeCreate_to_deploy) simp_all
  have ov: "MAX_INTEGER < balance (getAccount (clearContractStorage (state (e\<lparr>state := st1\<rparr>))
                (toBuffer (to message2))) (toBuffer (to message2))) + msg_value message2"
    using overflow by (simp add: m2 st2 toBuffer_def)
  have nc: "noCode message2 \<longleftrightarrow> data message = []"
    by (simp add: m2 noCode_def)
  have create: "(if data message = []
          then executeCreate v run message e =
                 Inr (\<lparr>res_gasUsed = 0, createdAddress = Some addr,
                       execResult = \<lparr>exceptionError = Some (VmError VALUE_OVERFLOW), gas = None,
                                     gasUsed = 0, returnValue = [], logs = None,
                                     selfdestruct = None, gasRefund = None\<rparr>\<rparr>,
                      message2, e\<lparr>state := st2\<rparr>)
          else executeCreate v run message e =
                 (case runInterpreter run message2 (e\<lparr>state := st2\<rparr>) of
                    Inl y \<Rightarrow> Inl y
                  | Inr (result, e3) \<Rightarrow> Inr (executeCreate_finish v message2 result e3)))"
    unfolding d executeCreate_deploy_overflow [OF ov] nc
    by (simp add: m2 st2 toBuffer_def)
  have ccr: "addToBalance (getAccount cst (toBuffer (to cmessage))) cmessage cst
             = Inl (VmError VALUE_OVERFLOW)"
    using call_overflow(2) by (rule addToBalance_overflow)
  have call: "executeCall v run cmessage ce =
              Inr (\<lparr>res_gasUsed = 0, createdAddress = None,
                    execResult = \<lparr>exceptionError = Some (VmError VALUE_OVERFLOW), gas = None,
                                  gasUsed = 0, returnValue = [], logs = None,
                                  selfdestruct = None, gasRefund = None\<rparr>\<rparr>,
                   loadCode v cmessage cst, ce\<lparr>state := cst\<rparr>)"
    using executeCall_early [of cst cmessage ce
        "addToBalance (getAccount cst (toBuffer (to cmessage))) cmessage cst" cst v run]
      cst call_overflow(1) ccr
    by simp
  from create call show ?thesis by simp
qed

theorem executeCreate_credit_error_witness:
  "exceptionError (execResult (fst (projr (executeCreate ex_vm ex_run_ok (ex_create ex_alice 2 1 [0x00])
       (ex_evm\<lparr>state := ex_create_state (ex_account\<lparr>balance := MAX_INTEGER\<rparr>)\<rparr>))))) = None
   \<and> exceptionError (execResult (fst (projr (executeCall ex_vm ex_run_ok (ex_call ex_alice ex_bob 1 1 [])
       (ex_evm\<lparr>state := ex_rich_state\<rparr>))))) = Some (VmError VALUE_OVERFLOW)"
proof -
  let ?m = "ex_create ex_alice 2 1 [0x00]"
  let ?e = "ex_evm\<lparr>state := ex_create_state (ex_account\<lparr>balance := MAX_INTEGER\<rparr>)\<rparr>"
  let ?st1 = "reduceSenderBalance (getAccount (state ?e) (caller ?m)) ?m (state ?e)"
  let ?cm = "ex_call ex_alice ex_bob 1 1 []"
  let ?ce = "ex_evm\<lparr>state := ex_rich_state\<rparr>"
  let ?cst = "reduceSenderBalance (getAccount (state ?ce) (caller ?cm)) ?cm (state ?ce)"
  have a: "ex_bob = generateAddress ex_vm ?st1 ?m"
    using ex_create_address by (simp add: ex_evm_def)
  have nocoll: "\<not> (0 < nonce (getAccount ?st1 ex_bob)
                    \<or> codeHash (getAccount ?st1 ex_bob) \<noteq> KECCAK256_NULL)"
    by (simp add: reduceSenderBalance_def toBuffer_BN_def getAccount_def putAccount_def ex_create_state_def
        ex_state_def ex_world_def ex_create_def ex_evm_def ex_account_def ex_alice_def
        ex_bob_def Let_def)
  have ov: "MAX_INTEGER < balance (getAccount (clearContractStorage ?st1 ex_bob) ex_bob)
                          + msg_value ?m"
    by (simp add: reduceSenderBalance_def toBuffer_BN_def getAccount_def putAccount_def ex_create_state_def
        clearContractStorage_def ex_state_def ex_world_def ex_create_def ex_evm_def
        ex_account_def ex_alice_def ex_bob_def Let_def)
  have nd: "\<not> delegatecall ?cm" by (simp add: ex_call_def)
  have cov: "MAX_INTEGER < balance (getAccount ?cst (toBuffer (to ?cm))) + msg_value ?cm"
    by (simp add: reduceSenderBalance_def toBuffer_BN_def getAccount_def putAccount_def ex_rich_state_def
        ex_state_def ex_world_def ex_call_def ex_evm_def toBuffer_def
        ex_account_def ex_alice_def ex_bob_def Let_def)
  have ne: "data ?m \<noteq> []" by (simp add: ex_create_def)
  from executeCreate_credit_error_only_for_empty_code
         [OF refl a refl nocoll refl ov refl nd cov, of ex_run_ok] ne
  show ?thesis
    by (simp add: runInterpreter_def ex_run_ok_def executeCreate_finish_def Let_def ex_create_def
        ex_vm_def OOGResult_def)
qed

end
